theory Spec2Isabelle
  imports Complex_Main
begin

section \<open>Purchase and entitlement flow of the community platform backend\<close>

text \<open>
  The development embeds the purchase model (\<^verbatim>\<open>models/Purchase.js\<close>), the product, role,
  user-role, software and notification models as far as the purchase flow reads or writes them,
  the purchase routes (\<^verbatim>\<open>routes/purchases.js\<close>) and the payment routes
  (\<^verbatim>\<open>routes/stripe.js\<close>).

  Conventions of the embedding:
  \<^item> a mongoose document is a record; a collection is the list of its documents in insertion
    order, and the position in the list plays the part of \<^verbatim>\<open>_id\<close>: \<^verbatim>\<open>findOne\<close> returns
    the first matching document with its position and \<^verbatim>\<open>save\<close> on a loaded document writes
    that position;
  \<^item> a JavaScript number that holds an identifier or a counter is an \<open>int\<close>; a price and a
    day count are \<open>rat\<close>, with exact arithmetic (the rounding of double-precision arithmetic is
    left out); \<^verbatim>\<open>null\<close>/\<^verbatim>\<open>undefined\<close> is \<open>None\<close>;
  \<^item> an ISO-8601 date string written by \<^verbatim>\<open>toISOString\<close> is kept as the instant it denotes,
    in milliseconds since the epoch (type \<open>time\<close>); the clock reads a valid date, and a date
    computed from it is clipped to the range of JavaScript dates, outside of which
    \<^verbatim>\<open>toISOString\<close> throws;
  \<^item> one request is served at one instant: every \<^verbatim>\<open>new Date()\<close> evaluated while a request
    is handled reads the same value \<open>now\<close>;
  \<^item> a thrown exception is a value of type \<open>error\<close>; a handler that mutates the store and
    then throws returns the mutated store together with the error, since nothing is rolled
    back;
  \<^item> the \<^verbatim>\<open>createdAt\<close>/\<^verbatim>\<open>updatedAt\<close> stamps that mongoose maintains by itself are left out.
\<close>

subsection \<open>Values\<close>

type_synonym time = int

datatype json =
    JNull
  | JBool bool
  | JNum rat
  | JStr string
  | JDate time
  | JObj "(string \<times> json) list"

datatype status = Pending | Completed | Failed | Refunded | Cancelled

datatype error =
    LimitExceeded      \<comment> \<open>\<^verbatim>\<open>new Error('Download limit exceeded')\<close>\<close>
  | TypeError          \<comment> \<open>property read on \<^verbatim>\<open>undefined\<close>\<close>
  | ValidationError    \<comment> \<open>a mongoose validator rejected the document on \<^verbatim>\<open>save\<close>\<close>
  | RangeError         \<comment> \<open>\<^verbatim>\<open>toISOString\<close> of an invalid date\<close>

fun status_name :: "status \<Rightarrow> string" where
  "status_name Pending = ''Pending''"
| "status_name Completed = ''Completed''"
| "status_name Failed = ''Failed''"
| "status_name Refunded = ''Refunded''"
| "status_name Cancelled = ''Cancelled''"

text \<open>JavaScript truthiness of the values the routes test.\<close>

fun truthy_str :: "string option \<Rightarrow> bool" where
  "truthy_str None = False"
| "truthy_str (Some s) = (s \<noteq> [])"

fun truthy_num :: "int option \<Rightarrow> bool" where
  "truthy_num None = False"
| "truthy_num (Some n) = (n \<noteq> 0)"

fun json_str :: "string option \<Rightarrow> json" where
  "json_str None = JNull"
| "json_str (Some s) = JStr s"

fun json_date :: "time option \<Rightarrow> json" where
  "json_date None = JNull"
| "json_date (Some t) = JDate t"

fun truthy_days :: "rat option \<Rightarrow> bool" where
  "truthy_days None = False"
| "truthy_days (Some n) = (n \<noteq> 0)"

fun json_num :: "rat option \<Rightarrow> json" where
  "json_num None = JNull"
| "json_num (Some n) = JNum n"

subsection \<open>The purchase document\<close>

record purchase =
  purchaseId :: int
  userId :: int
  softwareId :: int
  paymentMethod :: string
  amount :: rat
  currency :: string
  status :: status
  transactionId :: "string option"
  stripePaymentId :: "string option"
  stripeSessionId :: "string option"
  productSlug :: "string option"
  duration :: "string option"
  durationDays :: "rat option"
  paymentData :: json
  purchaseDate :: time
  completedAt :: "time option"
  refundedAt :: "time option"
  refundReason :: "string option"
  downloadCount :: int
  maxDownloads :: int
  lastDownload :: "time option"
  licenseKey :: "string option"
  expiresAt :: "time option"
  notes' :: "string option"

text \<open>
  \<^verbatim>\<open>completePurchase\<close>, \<^verbatim>\<open>failPurchase\<close> and \<^verbatim>\<open>refundPurchase\<close> assign the status
  unconditionally; the optional arguments are assigned when truthy (\<^verbatim>\<open>refundReason\<close> always).
  The field \<^verbatim>\<open>notes\<close> is written \<open>notes'\<close>, \<^verbatim>\<open>id\<close> is written \<open>purchaseId\<close>.
\<close>

definition completePurchase :: "string option \<Rightarrow> time \<Rightarrow> purchase \<Rightarrow> purchase" where
  "completePurchase txn now p =
     (let p1 = p\<lparr>status := Completed, completedAt := Some now\<rparr>
      in if truthy_str txn then p1\<lparr>transactionId := txn\<rparr> else p1)"

definition failPurchase :: "string option \<Rightarrow> purchase \<Rightarrow> purchase" where
  "failPurchase reason p =
     (let p1 = p\<lparr>status := Failed\<rparr>
      in if truthy_str reason then p1\<lparr>notes' := reason\<rparr> else p1)"

definition refundPurchase :: "string option \<Rightarrow> time \<Rightarrow> purchase \<Rightarrow> purchase" where
  "refundPurchase reason now p =
     p\<lparr>status := Refunded, refundedAt := Some now, refundReason := reason\<rparr>"

definition recordDownload :: "time \<Rightarrow> purchase \<Rightarrow> error + purchase" where
  "recordDownload now p =
     (if downloadCount p \<ge> maxDownloads p then Inl LimitExceeded
      else Inr (p\<lparr>downloadCount := downloadCount p + 1, lastDownload := Some now\<rparr>))"

text \<open>
  \<^verbatim>\<open>this.expiresAt && new Date() > new Date(this.expiresAt)\<close>: a stored expiry is a non-empty
  date string, so it is truthy exactly when it is not \<^verbatim>\<open>null\<close>.
\<close>

definition expired :: "time \<Rightarrow> purchase \<Rightarrow> bool" where
  "expired now p = (case expiresAt p of None \<Rightarrow> False | Some e \<Rightarrow> now > e)"

definition canDownload :: "time \<Rightarrow> purchase \<Rightarrow> bool" where
  "canDownload now p =
     (if status p \<noteq> Completed then False
      else if downloadCount p \<ge> maxDownloads p then False
      else if expired now p then False
      else True)"

definition isActive :: "time \<Rightarrow> purchase \<Rightarrow> bool" where
  "isActive now p =
     (if status p \<noteq> Completed then False
      else if expired now p then False
      else True)"

text \<open>
  \<^verbatim>\<open>toObject\<close> lists every path of the document; \<^verbatim>\<open>toJSON\<close> deletes three keys from it.
  The position in the collection stands for \<^verbatim>\<open>_id\<close>; the schema sets
  \<^verbatim>\<open>versionKey: false\<close>, so there is no \<^verbatim>\<open>__v\<close> to list.
\<close>

definition toObject :: "nat \<Rightarrow> purchase \<Rightarrow> (string \<times> json) list" where
  "toObject oid p =
     [(''_id'', JNum (of_nat oid)),
      (''id'', JNum (of_int (purchaseId p))),
      (''userId'', JNum (of_int (userId p))),
      (''softwareId'', JNum (of_int (softwareId p))),
      (''paymentMethod'', JStr (paymentMethod p)),
      (''amount'', JNum (amount p)),
      (''currency'', JStr (currency p)),
      (''status'', JStr (status_name (status p))),
      (''transactionId'', json_str (transactionId p)),
      (''stripePaymentId'', json_str (stripePaymentId p)),
      (''stripeSessionId'', json_str (stripeSessionId p)),
      (''productSlug'', json_str (productSlug p)),
      (''duration'', json_str (duration p)),
      (''durationDays'', json_num (durationDays p)),
      (''paymentData'', paymentData p),
      (''purchaseDate'', JDate (purchaseDate p)),
      (''completedAt'', json_date (completedAt p)),
      (''refundedAt'', json_date (refundedAt p)),
      (''refundReason'', json_str (refundReason p)),
      (''downloadCount'', JNum (of_int (downloadCount p))),
      (''maxDownloads'', JNum (of_int (maxDownloads p))),
      (''lastDownload'', json_date (lastDownload p)),
      (''licenseKey'', json_str (licenseKey p)),
      (''expiresAt'', json_date (expiresAt p)),
      (''notes'', json_str (notes' p))]"

definition delete_key :: "string \<Rightarrow> (string \<times> json) list \<Rightarrow> (string \<times> json) list" where
  "delete_key k obj = filter (\<lambda>kv. fst kv \<noteq> k) obj"

definition toJSON :: "nat \<Rightarrow> purchase \<Rightarrow> (string \<times> json) list" where
  "toJSON oid p =
     delete_key ''paymentData'' (delete_key ''__v'' (delete_key ''_id'' (toObject oid p)))"

subsection \<open>The other documents of the flow\<close>

text \<open>
  A product carries its duration tiers; the paths of a tier have no \<^verbatim>\<open>required\<close> flag, so
  \<^verbatim>\<open>days\<close> and \<^verbatim>\<open>price\<close> may be absent. Fields whose names the purchase document already
  uses carry a prefix.
\<close>

record duration_tier =
  tierDuration :: string
  days :: "rat option"
  price :: "rat option"
  stripePriceId :: "string option"

record product =
  productId :: int
  slug :: string
  title :: string
  description :: string
  basePrice :: rat
  productCurrency :: "string option"
  durations :: "duration_tier list"
  roleId :: "int option"
  active :: bool

record role =
  roleIdent :: int
  roleSlug :: string
  roleName :: string

record userRole =
  ur_id :: int
  ur_userUid :: int
  ur_roleId :: int
  ur_assignedAt :: time
  ur_assignedBy :: "int option"
  ur_expiresAt :: "time option"
  ur_active :: bool

datatype software_status = Active | Inactive | Discontinued | Beta

record software =
  sw_id :: int
  sw_name :: string
  sw_price :: rat
  sw_currency :: string
  sw_status :: software_status
  downloadUrl :: "string option"
  totalSales :: int

record notification =
  n_id :: int
  n_userUid :: int
  n_type :: string
  n_title :: string
  n_message :: string
  n_data :: json
  n_relatedId :: "int option"
  n_fromUserId :: "int option"
  n_createdAt :: time

record db =
  purchases :: "purchase list"
  products :: "product list"
  roles :: "role list"
  userRoles :: "userRole list"
  softwares :: "software list"
  notifications :: "notification list"

text \<open>
  What a request handler reads from its surroundings: the clock, the random draws of
  \<^verbatim>\<open>Math.floor(Math.random() * chars.length)\<close>, numbered in the order they are made, and the
  time zone of the server, given as the function \<open>LocalTZA(t, isUTC)\<close> of ECMAScript: the
  offset of local time from UTC in milliseconds, at the UTC instant \<open>t\<close> when \<open>isUTC\<close> holds
  and at the local time \<open>t\<close> otherwise.
\<close>

record env =
  now :: time
  random :: "nat \<Rightarrow> nat"
  localTZA :: "time \<Rightarrow> bool \<Rightarrow> int"

subsection \<open>Store access\<close>

text \<open>\<^verbatim>\<open>Model.findOne(query)\<close>: the first document that matches, with its position.\<close>

fun findOne_from :: "nat \<Rightarrow> ('a \<Rightarrow> bool) \<Rightarrow> 'a list \<Rightarrow> (nat \<times> 'a) option" where
  "findOne_from i P [] = None"
| "findOne_from i P (x # xs) = (if P x then Some (i, x) else findOne_from (Suc i) P xs)"

definition findOne :: "('a \<Rightarrow> bool) \<Rightarrow> 'a list \<Rightarrow> (nat \<times> 'a) option" where
  "findOne P xs = findOne_from 0 P xs"

text \<open>
  The \<^verbatim>\<open>pre('save')\<close> hook of every model: a new document gets the highest existing
  \<^verbatim>\<open>id\<close> plus one, or 1 in an empty collection.
\<close>

definition nextId :: "int list \<Rightarrow> int" where
  "nextId ids = (case ids of [] \<Rightarrow> 1 | i # rest \<Rightarrow> fold max rest i + 1)"

text \<open>
  \<^verbatim>\<open>generateLicenseKey\<close>: sixteen random characters of the 36-letter alphabet, a dash before
  every fourth one but the first.
\<close>

definition license_chars :: string where
  "license_chars = ''ABCDEFGHIJKLMNOPQRSTUVWXYZ0123456789''"

definition generateLicenseKey :: "(nat \<Rightarrow> nat) \<Rightarrow> string" where
  "generateLicenseKey rnd =
     concat (map (\<lambda>i. (if i > 0 \<and> i mod 4 = 0 then ''-'' else [])
                       @ [license_chars ! (rnd i mod length license_chars)]) [0..<16])"

subsection \<open>\<^verbatim>\<open>parseInt\<close>\<close>

text \<open>
  \<^verbatim>\<open>parseInt(string)\<close> without a radix: leading white space is skipped, a sign is read, a
  prefix \<^verbatim>\<open>0x\<close> selects base 16, and the longest run of digits is converted; \<open>None\<close> is
  \<^verbatim>\<open>NaN\<close>. Strings are ASCII here and the result is an exact integer.
\<close>

definition is_space :: "char \<Rightarrow> bool" where
  "is_space c = (c \<in> set [CHR 0x09, CHR 0x0A, CHR 0x0B, CHR 0x0C, CHR 0x0D, CHR '' ''])"

definition digit_of :: "nat \<Rightarrow> char \<Rightarrow> nat option" where
  "digit_of radix c =
     (let n = (of_char c :: nat);
          v = (if 48 \<le> n \<and> n \<le> 57 then Some (n - 48)
               else if 97 \<le> n \<and> n \<le> 122 then Some (n - 87)
               else if 65 \<le> n \<and> n \<le> 90 then Some (n - 55)
               else None)
      in case v of None \<Rightarrow> None | Some d \<Rightarrow> if d < radix then Some d else None)"

fun digits_prefix :: "nat \<Rightarrow> string \<Rightarrow> nat list" where
  "digits_prefix r [] = []"
| "digits_prefix r (c # cs) =
     (case digit_of r c of None \<Rightarrow> [] | Some d \<Rightarrow> d # digits_prefix r cs)"

definition parseInt :: "string \<Rightarrow> int option" where
  "parseInt s =
     (let s1 = dropWhile is_space s;
          neg = (case s1 of [] \<Rightarrow> False | c # _ \<Rightarrow> c = CHR ''-'');
          s2 = (case s1 of [] \<Rightarrow> [] | c # cs \<Rightarrow> if c = CHR ''-'' \<or> c = CHR ''+'' then cs else s1);
          hex = (case s2 of a # b # _ \<Rightarrow> a = CHR ''0'' \<and> (b = CHR ''x'' \<or> b = CHR ''X'') | _ \<Rightarrow> False);
          radix = (if hex then 16 else 10);
          s3 = (if hex then drop 2 s2 else s2);
          ds = digits_prefix radix s3
      in if ds = [] then None
         else Some ((if neg then - 1 else 1) * int (foldl (\<lambda>a d. a * radix + d) 0 ds)))"

text \<open>The decimal digits of \<^verbatim>\<open>Date.now()\<close> inside a template string.\<close>

fun decimal :: "nat \<Rightarrow> string" where
  "decimal n =
     (if n < 10 then [char_of (48 + n)]
      else decimal (n div 10) @ [char_of (48 + n mod 10)])"

subsection \<open>Creating documents\<close>

text \<open>
  The validators of the purchase schema that a route can violate: the two enumerations and
  the lower bound of \<^verbatim>\<open>amount\<close>. Validation runs before the \<^verbatim>\<open>pre('save')\<close> hook, and a
  rejected document is not stored.
\<close>

definition validate_purchase :: "purchase \<Rightarrow> bool" where
  "validate_purchase p =
     (paymentMethod p \<in> set [''Crypto'', ''Card'', ''PayPal'', ''Bank Transfer'']
      \<and> amount p \<ge> 0
      \<and> currency p \<in> set [''USD'', ''EUR'', ''BTC'', ''ETH''])"

text \<open>\<^verbatim>\<open>new Purchase({...})\<close> with the schema defaults; the \<^verbatim>\<open>id\<close> is assigned on save.\<close>

definition new_purchase :: "time \<Rightarrow> int \<Rightarrow> int \<Rightarrow> string \<Rightarrow> rat \<Rightarrow> string \<Rightarrow> purchase" where
  "new_purchase t uid sid pm amt cur =
     \<lparr>purchaseId = 0, userId = uid, softwareId = sid, paymentMethod = pm, amount = amt,
      currency = cur, status = Pending, transactionId = None, stripePaymentId = None,
      stripeSessionId = None, productSlug = None, duration = None, durationDays = None,
      paymentData = JObj [], purchaseDate = t, completedAt = None, refundedAt = None,
      refundReason = None, downloadCount = 0, maxDownloads = 5, lastDownload = None,
      licenseKey = None, expiresAt = None, notes' = None\<rparr>"

definition save_new_purchase ::
  "env \<Rightarrow> purchase \<Rightarrow> purchase list \<Rightarrow> error + (purchase \<times> purchase list)" where
  "save_new_purchase e p ps =
     (if \<not> validate_purchase p then Inl ValidationError
      else
        let p1 = p\<lparr>purchaseId := nextId (map purchaseId ps),
                   licenseKey := (if truthy_str (licenseKey p) then licenseKey p
                                  else Some (generateLicenseKey (random e)))\<rparr>
        in Inr (p1, ps @ [p1]))"

text \<open>
  \<^verbatim>\<open>Notification.createNotification\<close>: the schema bounds the title by 200 and the message by
  1000 characters and restricts the type.
\<close>

definition createNotification ::
  "time \<Rightarrow> int \<Rightarrow> string \<Rightarrow> string \<Rightarrow> string \<Rightarrow> json \<Rightarrow> int option \<Rightarrow> int option
     \<Rightarrow> notification list \<Rightarrow> error + notification list" where
  "createNotification t uid ty ttl msg dat rel frm ns =
     (if ty \<in> set [''mention'', ''pm'', ''reply'', ''reaction'', ''purchase'', ''system'',
                    ''token_reward'']
         \<and> ttl \<noteq> [] \<and> length ttl \<le> 200 \<and> msg \<noteq> [] \<and> length msg \<le> 1000
      then Inr (ns @ [\<lparr>n_id = nextId (map n_id ns), n_userUid = uid, n_type = ty,
                        n_title = ttl, n_message = msg, n_data = dat, n_relatedId = rel,
                        n_fromUserId = frm, n_createdAt = t\<rparr>])
      else Inl ValidationError)"

subsection \<open>Responses\<close>

type_synonym response = "nat \<times> json"

definition failure :: "string \<Rightarrow> json" where
  "failure msg = JObj [(''success'', JBool False), (''message'', JStr msg)]"

subsection \<open>The purchase routes\<close>

record purchase_request =
  pr_user :: int
  pr_softwareId :: "int option"
  pr_paymentMethod :: "string option"

definition isPurchasable :: "software \<Rightarrow> bool" where
  "isPurchasable s = (sw_status s = Active \<or> sw_status s = Beta)"

text \<open>\<^verbatim>\<open>incrementSales\<close>; the \<^verbatim>\<open>updatedAt\<close> stamp it also sets is not kept in the record.\<close>

definition incrementSales :: "software \<Rightarrow> software" where
  "incrementSales s = s\<lparr>totalSales := totalSales s + 1\<rparr>"

text \<open>
  \<^verbatim>\<open>POST /api/purchases\<close>: the new purchase is saved and then completed by the same request
  (``for demo purposes, auto-complete the purchase''). The inner case on the payment method
  only unwraps the string that the first test has found truthy, and the \<^verbatim>\<open>softwareId\<close> of
  the request is written as the \<^verbatim>\<open>id\<close> of the listing that it has found.
\<close>

definition post_purchase :: "env \<Rightarrow> purchase_request \<Rightarrow> db \<Rightarrow> db \<times> response" where
  "post_purchase e req d =
     (if \<not> truthy_num (pr_softwareId req) \<or> \<not> truthy_str (pr_paymentMethod req)
      then (d, 400, failure ''Software ID and payment method are required'')
      else
        case findOne (\<lambda>s. Some (sw_id s) = pr_softwareId req) (softwares d) of
          None \<Rightarrow> (d, 404, failure ''Software not found'')
        | Some (j, sw) \<Rightarrow>
            if \<not> isPurchasable sw
            then (d, 400, failure ''Software is not available for purchase'')
            else
              case findOne (\<lambda>p. userId p = pr_user req \<and> Some (softwareId p) = pr_softwareId req
                                  \<and> status p = Completed) (purchases d) of
                Some _ \<Rightarrow> (d, 409, failure ''You already own this software'')
              | None \<Rightarrow>
                  (case pr_paymentMethod req of
                     None \<Rightarrow> (d, 400, failure ''Software ID and payment method are required'')
                   | Some pm \<Rightarrow>
                       case save_new_purchase e
                              (new_purchase (now e) (pr_user req) (sw_id sw) pm
                                 (sw_price sw) (sw_currency sw))
                              (purchases d) of
                         Inl _ \<Rightarrow> (d, 500, failure ''Server error while processing purchase'')
                       | Inr (p1, ps1) \<Rightarrow>
                           let i = length (purchases d);
                               p2 = completePurchase
                                      (Some (''DEMO_'' @ decimal (nat (now e)))) (now e) p1;
                               d1 = d\<lparr>purchases := ps1[i := p2],
                                      softwares := (softwares d)[j := incrementSales sw]\<rparr>
                           in (d1, 201,
                               JObj [(''success'', JBool True),
                                     (''message'', JStr ''Purchase completed successfully''),
                                     (''purchase'', JObj (toJSON i p2))])))"

record download_request =
  dl_user :: int
  dl_id :: string

text \<open>The message chosen when \<^verbatim>\<open>canDownload\<close> has refused.\<close>

definition denial_message :: "time \<Rightarrow> purchase \<Rightarrow> string" where
  "denial_message t p =
     (if status p \<noteq> Completed then ''Purchase not completed''
      else if downloadCount p \<ge> maxDownloads p then ''Download limit exceeded''
      else if expired t p then ''Purchase has expired''
      else ''Download not available'')"

definition post_download :: "env \<Rightarrow> download_request \<Rightarrow> db \<Rightarrow> db \<times> response" where
  "post_download e req d =
     (case parseInt (dl_id req) of
        None \<Rightarrow> (d, 400, failure ''Invalid purchase ID'')
      | Some pid \<Rightarrow>
          case findOne (\<lambda>p. purchaseId p = pid) (purchases d) of
            None \<Rightarrow> (d, 404, failure ''Purchase not found'')
          | Some (i, p) \<Rightarrow>
              if dl_user req \<noteq> userId p
              then (d, 403, failure ''You can only download your own purchases'')
              else if \<not> canDownload (now e) p
              then (d, 400, failure (denial_message (now e) p))
              else
                case recordDownload (now e) p of
                  Inl _ \<Rightarrow> (d, 500, failure ''Server error while recording download'')
                | Inr p1 \<Rightarrow>
                    let d1 = d\<lparr>purchases := (purchases d)[i := p1]\<rparr>;
                        url = (case findOne (\<lambda>s. sw_id s = softwareId p1) (softwares d1) of
                                 None \<Rightarrow> None
                               | Some (_, s) \<Rightarrow>
                                   if truthy_str (downloadUrl s) then downloadUrl s else None)
                    in (d1, 200,
                        JObj [(''success'', JBool True),
                              (''message'', JStr ''Download recorded successfully''),
                              (''downloadUrl'', json_str url),
                              (''remainingDownloads'',
                                 JNum (of_int (maxDownloads p1 - downloadCount p1)))]))"

subsection \<open>The payment provider\<close>

text \<open>
  The object inside a provider event, as far as the handlers read it: a checkout session
  (\<^verbatim>\<open>id\<close>, \<^verbatim>\<open>client_reference_id\<close>, \<^verbatim>\<open>metadata\<close>, \<^verbatim>\<open>payment_intent\<close>) or a payment intent
  (\<^verbatim>\<open>id\<close>, \<^verbatim>\<open>last_payment_error\<close> with its optional \<^verbatim>\<open>message\<close>).
\<close>

record stripe_object =
  obj_id :: string
  client_reference_id :: "string option"
  metadata :: "(string \<times> string) list option"
  payment_intent :: "string option"
  last_payment_error :: "string option option"

record event =
  ev_type :: string
  ev_object :: stripe_object

text \<open>
  The provider's client library is not part of the repository; its two entry points are
  fields of the client: \<^verbatim>\<open>checkout.sessions.create\<close> returns the session's id and url or throws
  (\<open>None\<close>), \<^verbatim>\<open>webhooks.constructEvent\<close> takes the raw body, the signature header and the
  secret and returns the event or throws with a message (\<open>Inl\<close>).
\<close>

record stripe_client =
  sessions_create :: "purchase \<Rightarrow> product \<Rightarrow> duration_tier \<Rightarrow> (string \<times> string) option"
  constructEvent :: "string \<Rightarrow> string option \<Rightarrow> string option \<Rightarrow> string + event"

record config =
  stripe :: "stripe_client option"
  webhookSecret :: "string option"

subsection \<open>\<^verbatim>\<open>POST /api/stripe/create-checkout-session\<close>\<close>

record checkout_request =
  co_user :: int
  co_productSlug :: "string option"
  co_duration :: "string option"

definition checkout_error :: json where
  "checkout_error = failure ''Server error while creating checkout session''"

text \<open>
  The \<^verbatim>\<open>slug\<close> path of the product schema is declared \<^verbatim>\<open>lowercase: true, trim: true\<close>, and
  mongoose applies the setters of a path to the value of a query filter as well: a product is
  found by the lower-cased, trimmed slug of the query. Strings are ASCII here.
\<close>

definition toLowerCase :: "string \<Rightarrow> string" where
  "toLowerCase s =
     map (\<lambda>c. if 65 \<le> (of_char c :: nat) \<and> (of_char c :: nat) \<le> 90
              then char_of ((of_char c :: nat) + 32) else c) s"

definition trim :: "string \<Rightarrow> string" where
  "trim s = rev (dropWhile is_space (rev (dropWhile is_space s)))"

definition cast_slug :: "string option \<Rightarrow> string option" where
  "cast_slug q = map_option (\<lambda>s. trim (toLowerCase s)) q"

definition findProduct ::
  "string option \<Rightarrow> (product \<Rightarrow> bool) \<Rightarrow> product list \<Rightarrow> (nat \<times> product) option" where
  "findProduct q extra ps = findOne (\<lambda>pr. Some (slug pr) = cast_slug q \<and> extra pr) ps"

text \<open>\<^verbatim>\<open>product.currency || 'USD'\<close>\<close>

definition currency_or_usd :: "product \<Rightarrow> string" where
  "currency_or_usd prd =
     (case productCurrency prd of None \<Rightarrow> ''USD'' | Some c \<Rightarrow> if c \<noteq> [] then c else ''USD'')"

text \<open>
  \<^verbatim>\<open>amount\<close> is a required path: a tier without a price makes the first save fail. The
  purchase stays stored as \<open>Pending\<close> when the provider's call throws after it.
\<close>

definition create_checkout_session ::
  "config \<Rightarrow> env \<Rightarrow> checkout_request \<Rightarrow> db \<Rightarrow> db \<times> response" where
  "create_checkout_session cfg e req d =
     (case stripe cfg of
        None \<Rightarrow> (d, 503, failure ''Payment system not configured'')
      | Some client \<Rightarrow>
          if \<not> truthy_str (co_productSlug req) \<or> \<not> truthy_str (co_duration req)
          then (d, 400, failure ''Product slug and duration are required'')
          else
            case findProduct (co_productSlug req) active (products d) of
              None \<Rightarrow> (d, 404, failure ''Product not found'')
            | Some (_, prd) \<Rightarrow>
                case find (\<lambda>t. Some (tierDuration t) = co_duration req) (durations prd) of
                  None \<Rightarrow> (d, 400, failure ''Invalid duration'')
                | Some durationObj \<Rightarrow>
                    (case price durationObj of
                       None \<Rightarrow> (d, 500, checkout_error)
                     | Some amt \<Rightarrow>
                         let p0 = (new_purchase (now e) (co_user req) (productId prd) ''Card''
                                     amt (currency_or_usd prd))
                                  \<lparr>productSlug := co_productSlug req,
                                   duration := co_duration req,
                                   durationDays := days durationObj\<rparr>
                         in case save_new_purchase e p0 (purchases d) of
                              Inl _ \<Rightarrow> (d, 500, checkout_error)
                            | Inr (p1, ps1) \<Rightarrow>
                                (case sessions_create client p1 prd durationObj of
                                   None \<Rightarrow> (d\<lparr>purchases := ps1\<rparr>, 500, checkout_error)
                                 | Some (sid, url) \<Rightarrow>
                                     (d\<lparr>purchases :=
                                          ps1[length (purchases d)
                                                := p1\<lparr>stripeSessionId := Some sid\<rparr>]\<rparr>,
                                      200,
                                      JObj [(''success'', JBool True),
                                            (''sessionId'', JStr sid),
                                            (''url'', JStr url)]))))"

subsection \<open>The webhook\<close>

text \<open>
  \<^verbatim>\<open>session.client_reference_id || session.metadata.purchaseId\<close>: the metadata is read only
  when the reference is falsy, and reading a property of an absent metadata object throws.
\<close>

definition session_reference :: "stripe_object \<Rightarrow> error + string option" where
  "session_reference session =
     (if truthy_str (client_reference_id session) then Inr (client_reference_id session)
      else case metadata session of
             None \<Rightarrow> Inl TypeError
           | Some m \<Rightarrow> Inr (map_of m ''purchaseId''))"

text \<open>
  \<^verbatim>\<open>TimeClip\<close>: a time value beyond 8.64e15 milliseconds on either side of the epoch is no
  date (\<open>None\<close> is the invalid date).
\<close>

definition msPerDay :: int where
  "msPerDay = 86400000"

definition timeClip :: "int \<Rightarrow> time option" where
  "timeClip x = (if \<bar>x\<bar> > 8640000000000000 then None else Some x)"

text \<open>
  \<^verbatim>\<open>expiry.setDate(expiry.getDate() + days)\<close> on the date \<open>t\<close>, for \<open>days \<ge> 0\<close>, the only
  case in which the handler calls it. By ECMAScript \<^verbatim>\<open>setDate(dt)\<close> takes the local time
  \<open>LocalTime(t) = t + LocalTZA(t, true)\<close>, replaces its day by
  \<open>MakeDay(year, month, ToIntegerOrInfinity(dt))\<close>, keeps the time within the day, and converts
  back by \<open>UTC(l) = l - LocalTZA(l, false)\<close> and \<^verbatim>\<open>TimeClip\<close>. With
  \<open>dt = getDate() + days\<close> the day number moves by the whole days of \<open>days\<close>, so the local
  time moves by that many times 86400000 milliseconds.
\<close>

definition setDate_plus :: "env \<Rightarrow> time \<Rightarrow> rat \<Rightarrow> time option" where
  "setDate_plus e t n =
     (let l = t + localTZA e t True;
          l' = l + \<lfloor>n\<rfloor> * msPerDay
      in timeClip (l' - localTZA e l' False))"

text \<open>
  ``Calculate expiry'': \<^verbatim>\<open>null\<close> unless \<^verbatim>\<open>durationDays\<close> is truthy and positive;
  \<^verbatim>\<open>expiry.toISOString()\<close> throws a \<^verbatim>\<open>RangeError\<close> on the invalid date.
\<close>

definition entitlement_expiry :: "env \<Rightarrow> purchase \<Rightarrow> error + time option" where
  "entitlement_expiry e p =
     (case durationDays p of
        None \<Rightarrow> Inr None
      | Some n \<Rightarrow>
          if truthy_days (Some n) \<and> n > 0
          then (case setDate_plus e (now e) n of
                  None \<Rightarrow> Inl RangeError
                | Some x \<Rightarrow> Inr (Some x))
          else Inr None)"

text \<open>
  \<^verbatim>\<open>new UserRole({userUid, roleId, assignedBy, expiresAt})\<close> as it is stored: the schema
  defaults and the \<^verbatim>\<open>id\<close> of the \<^verbatim>\<open>pre('save')\<close> hook.
\<close>

definition new_userRole ::
  "time \<Rightarrow> int \<Rightarrow> int \<Rightarrow> int \<Rightarrow> time option \<Rightarrow> userRole list \<Rightarrow> userRole" where
  "new_userRole t uid rid assigner expiry urs =
     \<lparr>ur_id = nextId (map ur_id urs), ur_userUid = uid, ur_roleId = rid, ur_assignedAt = t,
      ur_assignedBy = Some assigner, ur_expiresAt = expiry, ur_active = True\<rparr>"

text \<open>
  The block guarded by \<^verbatim>\<open>product && product.roleId\<close> and then by \<^verbatim>\<open>role\<close>: the expiry is
  computed, a new user-role document is stored and the expiry is written to the purchase at
  position \<open>i\<close>. When the computation of the expiry throws, nothing of the block is stored.
\<close>

definition grant_role ::
  "env \<Rightarrow> nat \<Rightarrow> purchase \<Rightarrow> product option \<Rightarrow> db \<Rightarrow> db \<times> error option" where
  "grant_role e i p prd d =
     (case prd of
        None \<Rightarrow> (d, None)
      | Some pr \<Rightarrow>
          if \<not> truthy_num (roleId pr) then (d, None)
          else
            case findOne (\<lambda>r. Some (roleIdent r) = roleId pr) (roles d) of
              None \<Rightarrow> (d, None)
            | Some (_, r) \<Rightarrow>
                (case entitlement_expiry e p of
                   Inl err \<Rightarrow> (d, Some err)
                 | Inr expiry \<Rightarrow>
                     let ur = new_userRole (now e) (userId p) (roleIdent r) (userId p) expiry
                                (userRoles d)
                     in (d\<lparr>userRoles := userRoles d @ [ur],
                           purchases := (purchases d)[i := p\<lparr>expiresAt := expiry\<rparr>]\<rparr>,
                         None)))"

definition completion_message :: "product option \<Rightarrow> string" where
  "completion_message prd =
     ''Your purchase of '' @ (case prd of None \<Rightarrow> ''product'' | Some pr \<Rightarrow> title pr)
       @ '' has been completed successfully.''"

text \<open>The assignments under ``Update purchase''.\<close>

definition mark_completed :: "env \<Rightarrow> stripe_object \<Rightarrow> purchase \<Rightarrow> purchase" where
  "mark_completed e session p =
     p\<lparr>status := Completed, completedAt := Some (now e),
       stripePaymentId := payment_intent session,
       transactionId := Some (obj_id session)\<rparr>"

definition handleCheckoutSessionCompleted ::
  "env \<Rightarrow> stripe_object \<Rightarrow> db \<Rightarrow> db \<times> error option" where
  "handleCheckoutSessionCompleted e session d =
     (case session_reference session of
        Inl err \<Rightarrow> (d, Some err)
      | Inr ref \<Rightarrow>
          let pid = (case ref of None \<Rightarrow> None | Some s \<Rightarrow> parseInt s)
          in if \<not> truthy_num pid then (d, None)
             else
               case findOne (\<lambda>p. Some (purchaseId p) = pid) (purchases d) of
                 None \<Rightarrow> (d, None)
               | Some (i, p) \<Rightarrow>
                   let p1 = mark_completed e session p;
                       d1 = d\<lparr>purchases := (purchases d)[i := p1]\<rparr>;
                       prd = map_option snd
                                (findProduct (productSlug p1) (\<lambda>_. True) (products d1))
                   in case grant_role e i p1 prd d1 of
                        (d2, Some err) \<Rightarrow> (d2, Some err)
                      | (d2, None) \<Rightarrow>
                          (case createNotification (now e) (userId p1) ''purchase''
                                  ''Purchase Complete!'' (completion_message prd)
                                  (JObj [(''purchaseId'', JNum (of_int (purchaseId p1))),
                                         (''productSlug'', json_str (productSlug p1)),
                                         (''duration'', json_str (duration p1))])
                                  (Some (purchaseId p1)) None (notifications d2) of
                             Inl err \<Rightarrow> (d2, Some err)
                           | Inr ns \<Rightarrow> (d2\<lparr>notifications := ns\<rparr>, None)))"

text \<open>
  \<^verbatim>\<open>paymentIntent.last_payment_error?.message || 'Payment failed'\<close>; the purchase is looked up
  by the payment id that the completion handler stored.
\<close>

definition failure_note :: "stripe_object \<Rightarrow> string" where
  "failure_note intent =
     (case last_payment_error intent of
        None \<Rightarrow> ''Payment failed''
      | Some None \<Rightarrow> ''Payment failed''
      | Some (Some m) \<Rightarrow> if m \<noteq> [] then m else ''Payment failed'')"

definition mark_failed :: "stripe_object \<Rightarrow> purchase \<Rightarrow> purchase" where
  "mark_failed intent p = p\<lparr>status := Failed, notes' := Some (failure_note intent)\<rparr>"

definition handlePaymentFailed :: "env \<Rightarrow> stripe_object \<Rightarrow> db \<Rightarrow> db \<times> error option" where
  "handlePaymentFailed e intent d =
     (case findOne (\<lambda>p. stripePaymentId p = Some (obj_id intent)) (purchases d) of
        None \<Rightarrow> (d, None)
      | Some (i, p) \<Rightarrow>
          let p1 = mark_failed intent p;
              d1 = d\<lparr>purchases := (purchases d)[i := p1]\<rparr>
          in case createNotification (now e) (userId p1) ''purchase'' ''Payment Failed''
                    ''Your recent payment attempt has failed. Please try again.''
                    (JObj [(''purchaseId'', JNum (of_int (purchaseId p1)))])
                    (Some (purchaseId p1)) None (notifications d1) of
               Inl err \<Rightarrow> (d1, Some err)
             | Inr ns \<Rightarrow> (d1\<lparr>notifications := ns\<rparr>, None))"

record webhook_request =
  wh_body :: string
  wh_signature :: "string option"

definition handle_event :: "env \<Rightarrow> event \<Rightarrow> db \<Rightarrow> db \<times> error option" where
  "handle_event e ev d =
     (if ev_type ev = ''checkout.session.completed''
      then handleCheckoutSessionCompleted e (ev_object ev) d
      else if ev_type ev = ''payment_intent.succeeded'' then (d, None)
      else if ev_type ev = ''payment_intent.payment_failed''
      then handlePaymentFailed e (ev_object ev) d
      else (d, None))"

definition webhook :: "config \<Rightarrow> env \<Rightarrow> webhook_request \<Rightarrow> db \<Rightarrow> db \<times> response" where
  "webhook cfg e req d =
     (case stripe cfg of
        None \<Rightarrow> (d, 503, JObj [(''error'', JStr ''Payment system not configured'')])
      | Some client \<Rightarrow>
          case constructEvent client (wh_body req) (wh_signature req) (webhookSecret cfg) of
            Inl msg \<Rightarrow> (d, 400, JStr (''Webhook Error: '' @ msg))
          | Inr ev \<Rightarrow>
              (case handle_event e ev d of
                 (d1, None) \<Rightarrow> (d1, 200, JObj [(''received'', JBool True)])
               | (d1, Some _) \<Rightarrow> (d1, 500, JObj [(''error'', JStr ''Webhook handler failed'')])))"

subsection \<open>The router\<close>

text \<open>
  The four routes that write purchase documents, as mounted by \<^verbatim>\<open>server/index.js\<close>; no
  other route of the repository writes or deletes one. A run of the server is a list of
  requests, each served at its own instant.
\<close>

datatype request =
    CreateCheckoutSession checkout_request
  | CreatePurchase purchase_request
  | RedeemDownload download_request
  | StripeWebhook webhook_request

fun serve :: "config \<Rightarrow> env \<Rightarrow> request \<Rightarrow> db \<Rightarrow> db \<times> response" where
  "serve cfg e (CreateCheckoutSession req) d = create_checkout_session cfg e req d"
| "serve cfg e (CreatePurchase req) d = post_purchase e req d"
| "serve cfg e (RedeemDownload req) d = post_download e req d"
| "serve cfg e (StripeWebhook req) d = webhook cfg e req d"

fun serve_all :: "config \<Rightarrow> (env \<times> request) list \<Rightarrow> db \<Rightarrow> db" where
  "serve_all cfg [] d = d"
| "serve_all cfg (er # rest) d = serve_all cfg rest (fst (serve cfg (fst er) (snd er) d))"

text \<open>The same download request repeated, once per instant of the list.\<close>

fun redeem_all :: "env list \<Rightarrow> download_request \<Rightarrow> db \<Rightarrow> db \<times> response list" where
  "redeem_all [] req d = (d, [])"
| "redeem_all (e # es) req d =
     (case post_download e req d of
        (d1, r) \<Rightarrow> (case redeem_all es req d1 of (d2, rs) \<Rightarrow> (d2, r # rs)))"

text \<open>The methods of the purchase document that assign the status or the counter.\<close>

datatype purchase_method =
    CompletePurchase "string option" time
  | FailPurchase "string option"
  | RefundPurchase "string option" time
  | RecordDownload time

fun call_method :: "purchase_method \<Rightarrow> purchase \<Rightarrow> error + purchase" where
  "call_method (CompletePurchase txn t) p = Inr (completePurchase txn t p)"
| "call_method (FailPurchase reason) p = Inr (failPurchase reason p)"
| "call_method (RefundPurchase reason t) p = Inr (refundPurchase reason t p)"
| "call_method (RecordDownload t) p = recordDownload t p"

text \<open>A run of method calls on one document; a call that throws leaves it as it was.\<close>

fun call_methods :: "purchase_method list \<Rightarrow> purchase \<Rightarrow> purchase" where
  "call_methods [] p = p"
| "call_methods (m # ms) p =
     call_methods ms (case call_method m p of Inl _ \<Rightarrow> p | Inr p' \<Rightarrow> p')"

subsection \<open>Properties named by the specification\<close>

text \<open>The invariant of the counters, over the whole collection.\<close>

definition counters_ok :: "db \<Rightarrow> bool" where
  "counters_ok d = list_all (\<lambda>p. downloadCount p \<le> maxDownloads p) (purchases d)"

text \<open>
  The download gate in the specification's words: completed, head room in the counter, and
  an expiry that is absent or strictly in the future.
\<close>

definition spec_isDownloadAllowed :: "time \<Rightarrow> purchase \<Rightarrow> bool" where
  "spec_isDownloadAllowed t p =
     (status p = Completed \<and> downloadCount p < maxDownloads p
      \<and> (case expiresAt p of None \<Rightarrow> True | Some x \<Rightarrow> t < x))"

text \<open>
  The status machine in the specification's words: a purchase leaves \<open>Pending\<close> for an
  outcome and stays there, the one exception being a refund of a completed purchase.
\<close>

definition spec_transition_allowed :: "status \<Rightarrow> status \<Rightarrow> bool" where
  "spec_transition_allowed s s' =
     (s' = s \<or> (s = Pending \<and> s' \<noteq> Pending) \<or> (s = Completed \<and> s' = Refunded))"

subsection \<open>A small shop\<close>

text \<open>
  The scenario of the specification: product ``pro-tool'' with the tier
  \<^verbatim>\<open>{duration: "1month", days: 30, price: 9.99}\<close>, granting role 3, and buyer 7 with one
  pending purchase for it. The provider's client is a stand-in that accepts the signature
  \<^verbatim>\<open>valid\<close> and then delivers a fixed event. The server of \<open>at_time\<close> runs on UTC.
\<close>

definition at_time :: "time \<Rightarrow> env" where
  "at_time t = \<lparr>now = t, random = (\<lambda>i. i), localTZA = (\<lambda>t isUTC. 0)\<rparr>"

definition pro_tier :: duration_tier where
  "pro_tier = \<lparr>tierDuration = ''1month'', days = Some 30, price = Some (999 / 100),
               stripePriceId = None\<rparr>"

definition pro_tool :: product where
  "pro_tool = \<lparr>productId = 1, slug = ''pro-tool'', title = ''Pro Tool'', description = [],
               basePrice = 5, productCurrency = Some ''USD'', durations = [pro_tier],
               roleId = Some 3, active = True\<rparr>"

definition vip :: role where
  "vip = \<lparr>roleIdent = 3, roleSlug = ''vip'', roleName = ''VIP''\<rparr>"

definition pending_purchase :: purchase where
  "pending_purchase =
     (new_purchase 1000 7 1 ''Card'' (999 / 100) ''USD'')
       \<lparr>purchaseId := 1, productSlug := Some ''pro-tool'', duration := Some ''1month'',
        durationDays := Some 30\<rparr>"

definition shop :: db where
  "shop = \<lparr>purchases = [pending_purchase], products = [pro_tool], roles = [vip],
           userRoles = [], softwares = [], notifications = []\<rparr>"

definition paid_session :: stripe_object where
  "paid_session = \<lparr>obj_id = ''cs_1'', client_reference_id = Some ''1'',
                   metadata = Some [(''purchaseId'', ''1'')], payment_intent = Some ''pi_1'',
                   last_payment_error = None\<rparr>"

definition bare_session :: stripe_object where
  "bare_session = \<lparr>obj_id = ''cs_2'', client_reference_id = None, metadata = None,
                   payment_intent = Some ''pi_2'', last_payment_error = None\<rparr>"

definition failed_intent :: stripe_object where
  "failed_intent = \<lparr>obj_id = ''pi_1'', client_reference_id = None, metadata = None,
                    payment_intent = None,
                    last_payment_error = Some (Some ''Your card was declined.'')\<rparr>"

definition delivering :: "event \<Rightarrow> stripe_client" where
  "delivering ev =
     \<lparr>sessions_create = (\<lambda>p prd t. Some (''cs_1'', ''https://checkout.example/cs_1'')),
      constructEvent = (\<lambda>body sig secret.
         if sig = Some ''valid'' then Inr ev else Inl ''signature mismatch'')\<rparr>"

definition provider :: "event \<Rightarrow> config" where
  "provider ev = \<lparr>stripe = Some (delivering ev), webhookSecret = Some ''whsec''\<rparr>"

definition signed :: webhook_request where
  "signed = \<lparr>wh_body = ''{}'', wh_signature = Some ''valid''\<rparr>"

definition forged :: webhook_request where
  "forged = \<lparr>wh_body = ''{}'', wh_signature = Some ''forged''\<rparr>"

definition completed_event :: event where
  "completed_event = \<lparr>ev_type = ''checkout.session.completed'', ev_object = paid_session\<rparr>"

definition bare_event :: event where
  "bare_event = \<lparr>ev_type = ''checkout.session.completed'', ev_object = bare_session\<rparr>"

definition failed_event :: event where
  "failed_event = \<lparr>ev_type = ''payment_intent.payment_failed'', ev_object = failed_intent\<rparr>"

definition pro_request :: checkout_request where
  "pro_request = \<lparr>co_user = 7, co_productSlug = Some ''pro-tool'',
                  co_duration = Some ''1month''\<rparr>"

definition redeem_request :: download_request where
  "redeem_request = \<lparr>dl_user = 7, dl_id = ''1''\<rparr>"

text \<open>The same purchase once completed, and at the instant of its expiry.\<close>

definition completed_purchase :: purchase where
  "completed_purchase = pending_purchase\<lparr>status := Completed\<rparr>"

definition boundary_purchase :: purchase where
  "boundary_purchase = completed_purchase\<lparr>expiresAt := Some 5000\<rparr>"

text \<open>The legacy catalogue: one purchasable listing and a buyer's request for it.\<close>

definition listing :: software where
  "listing = \<lparr>sw_id = 1, sw_name = ''Tool'', sw_price = 5, sw_currency = ''USD'',
              sw_status = Active, downloadUrl = Some ''https://files.example/tool'',
              totalSales = 0\<rparr>"

definition catalogue :: db where
  "catalogue = \<lparr>purchases = [], products = [], roles = [], userRoles = [],
                softwares = [listing], notifications = []\<rparr>"

definition listing_request :: purchase_request where
  "listing_request = \<lparr>pr_user = 7, pr_softwareId = Some 1, pr_paymentMethod = Some ''Card''\<rparr>"

text \<open>
  Three deliveries to the webhook of the shop: the completion, a failure event for the payment
  that the completion recorded, and the completion once more.
\<close>

definition after_payment :: db where
  "after_payment = fst (webhook (provider completed_event) (at_time 5000) signed shop)"

definition after_failure :: db where
  "after_failure = fst (webhook (provider failed_event) (at_time 6000) signed after_payment)"

definition after_replay :: db where
  "after_replay = fst (webhook (provider completed_event) (at_time 7000) signed after_failure)"

text \<open>The round trip: the shop before the order, and after the checkout request of buyer 7.\<close>

definition empty_shop :: db where
  "empty_shop = shop\<lparr>purchases := []\<rparr>"

definition ordered_shop :: db where
  "ordered_shop =
     fst (create_checkout_session (provider completed_event) (at_time 1000) pro_request
            empty_shop)"

text \<open>
  The shop with a product title of 951 characters: the completion notice then has 1001
  characters, one more than the notification schema admits.
\<close>

definition wordy_shop :: db where
  "wordy_shop = shop\<lparr>products := [pro_tool\<lparr>title := replicate 951 CHR ''x''\<rparr>]\<rparr>"


text \<open>
  The shop with a purchase of half a day, with a purchase of 100000001 days, and a server
  whose zone moves its clocks forward by an hour one day after the epoch.
\<close>

definition half_day_shop :: db where
  "half_day_shop = shop\<lparr>purchases := [pending_purchase\<lparr>durationDays := Some (1 / 2)\<rparr>]\<rparr>"

definition endless_shop :: db where
  "endless_shop = shop\<lparr>purchases := [pending_purchase\<lparr>durationDays := Some 100000001\<rparr>]\<rparr>"

definition clock_change_at :: "time \<Rightarrow> env" where
  "clock_change_at t =
     \<lparr>now = t, random = (\<lambda>i. i),
      localTZA = (\<lambda>t isUTC. if t < 86400000 then 0 else 3600000)\<rparr>"

text \<open>A checkout request that spells the slug in capitals and with blanks around it.\<close>

definition shouted_request :: checkout_request where
  "shouted_request = \<lparr>co_user = 7, co_productSlug = Some '' Pro-Tool '',
                      co_duration = Some ''1month''\<rparr>"

text \<open>The shop once the purchase is completed, and five instants at which it is redeemed.\<close>

definition paid_shop :: db where
  "paid_shop = shop\<lparr>purchases := [completed_purchase]\<rparr>"

definition five_instants :: "env list" where
  "five_instants = map at_time [2000, 3000, 4000, 5000, 6000]"

section \<open>Auxiliary facts\<close>

subsection \<open>\<^verbatim>\<open>findOne\<close> and writing back at the position found\<close>

lemma findOne_from_SomeD:
  "findOne_from k P xs = Some (j, x) \<Longrightarrow> k \<le> j \<and> j - k < length xs \<and> xs ! (j - k) = x \<and> P x"
proof (induction xs arbitrary: k)
  case Nil
  then show ?case by simp
next
  case (Cons a xs)
  show ?case
  proof (cases "P a")
    case True
    with Cons.prems show ?thesis by simp
  next
    case False
    with Cons.prems have "findOne_from (Suc k) P xs = Some (j, x)" by simp
    from Cons.IH [OF this]
    have ih: "Suc k \<le> j" "j - Suc k < length xs" "xs ! (j - Suc k) = x" "P x" by simp_all
    from ih(1) have "j - k = Suc (j - Suc k)" by arith
    with ih show ?thesis by simp
  qed
qed

lemma findOne_SomeD:
  "findOne P xs = Some (i, x) \<Longrightarrow> i < length xs \<and> xs ! i = x \<and> P x"
  using findOne_from_SomeD [of 0 P xs i x] by (simp add: findOne_def)

lemma findOne_from_update:
  "findOne_from k P xs = Some (j, x) \<Longrightarrow> P y \<Longrightarrow> findOne_from k P (xs[j - k := y]) = Some (j, y)"
proof (induction xs arbitrary: k)
  case Nil
  then show ?case by simp
next
  case (Cons a xs)
  show ?case
  proof (cases "P a")
    case True
    with Cons.prems show ?thesis by simp
  next
    case False
    with Cons.prems have f: "findOne_from (Suc k) P xs = Some (j, x)" by simp
    from findOne_from_SomeD [OF f] have "Suc k \<le> j" by simp
    then have "j - k = Suc (j - Suc k)" by arith
    with Cons.IH [OF f Cons.prems(2)] False show ?thesis by simp
  qed
qed

lemma findOne_update:
  "findOne P xs = Some (i, x) \<Longrightarrow> P y \<Longrightarrow> findOne P (xs[i := y]) = Some (i, y)"
  using findOne_from_update [of 0 P xs i x y] by (simp add: findOne_def)

subsection \<open>What one request does to the purchase collection\<close>

text \<open>
  Every route leaves the collection as it is, rewrites one position, or appends one document.
  The lemmas of this part state which of the three happens and what the written document
  keeps from the one it replaces.
\<close>

lemma post_download_shape:
  "purchases (fst (post_download e req d)) = purchases d
   \<or> (\<exists>i p'. i < length (purchases d)
         \<and> purchases (fst (post_download e req d)) = (purchases d)[i := p']
         \<and> status p' = status (purchases d ! i)
         \<and> purchaseId p' = purchaseId (purchases d ! i)
         \<and> downloadCount (purchases d ! i) < maxDownloads (purchases d ! i)
         \<and> downloadCount p' = downloadCount (purchases d ! i) + 1
         \<and> maxDownloads p' = maxDownloads (purchases d ! i))"
proof (cases "parseInt (dl_id req)")
  case None
  then show ?thesis by (simp add: post_download_def)
next
  case (Some pid)
  show ?thesis
  proof (cases "findOne (\<lambda>p. purchaseId p = pid) (purchases d)")
    case None
    with Some show ?thesis by (simp add: post_download_def)
  next
    case (Some ip)
    obtain i p where ip: "ip = (i, p)" by (cases ip)
    from findOne_SomeD [of _ "purchases d" i p] Some ip
    have f: "i < length (purchases d)" "purchases d ! i = p" by simp_all
    show ?thesis
    proof (cases "dl_user req = userId p \<and> canDownload (now e) p")
      case False
      with \<open>parseInt (dl_id req) = Some pid\<close> Some ip show ?thesis
        by (auto simp: post_download_def)
    next
      case True
      then have lt: "downloadCount p < maxDownloads p"
        by (auto simp: canDownload_def split: if_splits)
      with True \<open>parseInt (dl_id req) = Some pid\<close> Some ip f show ?thesis
        by (auto simp: post_download_def recordDownload_def Let_def intro!: exI [of _ i])
    qed
  qed
qed

text \<open>The webhook handlers.\<close>

lemma createNotification_result:
  "(\<exists>err. createNotification t u ty ttl msg dat rel frm ns = Inl err)
   \<or> (\<exists>n. createNotification t u ty ttl msg dat rel frm ns = Inr (ns @ [n]))"
  by (simp add: createNotification_def)

lemma mark_completed_fields [simp]:
  "status (mark_completed e session p) = Completed"
  "purchaseId (mark_completed e session p) = purchaseId p"
  "userId (mark_completed e session p) = userId p"
  "productSlug (mark_completed e session p) = productSlug p"
  "durationDays (mark_completed e session p) = durationDays p"
  "downloadCount (mark_completed e session p) = downloadCount p"
  "maxDownloads (mark_completed e session p) = maxDownloads p"
  "expiresAt (mark_completed e session p) = expiresAt p"
  by (simp_all add: mark_completed_def)

lemma entitlement_expiry_cong:
  "durationDays p' = durationDays p \<Longrightarrow> entitlement_expiry e p' = entitlement_expiry e p"
  by (simp add: entitlement_expiry_def)

lemma entitlement_expiry_mark_completed [simp]:
  "entitlement_expiry e' (mark_completed e session p) = entitlement_expiry e' p"
  by (rule entitlement_expiry_cong) simp

lemma mark_failed_fields [simp]:
  "status (mark_failed intent p) = Failed"
  "purchaseId (mark_failed intent p) = purchaseId p"
  "downloadCount (mark_failed intent p) = downloadCount p"
  "maxDownloads (mark_failed intent p) = maxDownloads p"
  by (simp_all add: mark_failed_def)

lemma grant_role_result:
  "grant_role e i p prd d = (d, None)
   \<or> (\<exists>err. entitlement_expiry e p = Inl err \<and> grant_role e i p prd d = (d, Some err))
   \<or> (\<exists>pr k r x. prd = Some pr \<and> truthy_num (roleId pr)
         \<and> findOne (\<lambda>r. Some (roleIdent r) = roleId pr) (roles d) = Some (k, r)
         \<and> entitlement_expiry e p = Inr x
         \<and> grant_role e i p prd d =
             (d\<lparr>userRoles := userRoles d @
                    [new_userRole (now e) (userId p) (roleIdent r) (userId p) x (userRoles d)],
                 purchases := (purchases d)[i := p\<lparr>expiresAt := x\<rparr>]\<rparr>, None))"
  by (auto simp: grant_role_def Let_def split: option.splits sum.splits)

lemma handleCheckoutSessionCompleted_found:
  assumes "session_reference session = Inr ref"
    and "(case ref of None \<Rightarrow> None | Some s \<Rightarrow> parseInt s) = Some pid"
    and "pid \<noteq> 0"
    and "findOne (\<lambda>p. Some (purchaseId p) = Some pid) (purchases d) = Some (i, p)"
  shows "\<exists>ns. fst (handleCheckoutSessionCompleted e session d) =
           (fst (grant_role e i (mark_completed e session p)
                   (map_option snd (findProduct (productSlug p) (\<lambda>_. True) (products d)))
                   (d\<lparr>purchases := (purchases d)[i := mark_completed e session p]\<rparr>)))
           \<lparr>notifications := ns\<rparr>"
proof -
  let ?p1 = "mark_completed e session p"
  let ?d1 = "d\<lparr>purchases := (purchases d)[i := ?p1]\<rparr>"
  let ?prd = "map_option snd (findProduct (productSlug ?p1) (\<lambda>_. True) (products d))"
  obtain d2 r where g: "grant_role e i ?p1 ?prd ?d1 = (d2, r)"
    by (cases "grant_role e i ?p1 ?prd ?d1")
  let ?cn = "createNotification (now e) (userId ?p1) ''purchase'' ''Purchase Complete!''
               (completion_message ?prd)
               (JObj [(''purchaseId'', JNum (of_int (purchaseId ?p1))),
                      (''productSlug'', json_str (productSlug ?p1)),
                      (''duration'', json_str (duration ?p1))])
               (Some (purchaseId ?p1)) None (notifications d2)"
  have run: "handleCheckoutSessionCompleted e session d =
               (case r of
                  Some err \<Rightarrow> (d2, Some err)
                | None \<Rightarrow> (case ?cn of
                       Inl err \<Rightarrow> (d2, Some err)
                     | Inr ns \<Rightarrow> (d2\<lparr>notifications := ns\<rparr>, None)))"
    using assms g
    by (simp add: handleCheckoutSessionCompleted_def Let_def del: mark_completed_fields)
  have same: "d2 = d2\<lparr>notifications := notifications d2\<rparr>" by simp
  have "\<exists>ns. fst (handleCheckoutSessionCompleted e session d) = d2\<lparr>notifications := ns\<rparr>"
  proof (cases r)
    case (Some err)
    with run have "fst (handleCheckoutSessionCompleted e session d) = d2"
      by (simp only: option.case fst_conv)
    with same show ?thesis by metis
  next
    case None
    show ?thesis
    proof (cases ?cn)
      case (Inl err)
      with run None have "fst (handleCheckoutSessionCompleted e session d) = d2"
        by (simp only: option.case sum.case fst_conv)
      with same show ?thesis by metis
    next
      case (Inr ns)
      with run None have "fst (handleCheckoutSessionCompleted e session d)
                         = d2\<lparr>notifications := ns\<rparr>"
        by (simp only: option.case sum.case fst_conv)
      then show ?thesis by blast
    qed
  qed
  with g show ?thesis by simp
qed

lemma handleCheckoutSessionCompleted_shape:
  "purchases (fst (handleCheckoutSessionCompleted e session d)) = purchases d
   \<or> (\<exists>i p'. i < length (purchases d)
         \<and> purchases (fst (handleCheckoutSessionCompleted e session d)) = (purchases d)[i := p']
         \<and> status p' = Completed
         \<and> purchaseId p' = purchaseId (purchases d ! i)
         \<and> downloadCount p' = downloadCount (purchases d ! i)
         \<and> maxDownloads p' = maxDownloads (purchases d ! i))"
proof (cases "session_reference session")
  case (Inl err)
  then show ?thesis by (simp add: handleCheckoutSessionCompleted_def)
next
  case (Inr ref)
  let ?pid = "case ref of None \<Rightarrow> None | Some s \<Rightarrow> parseInt s"
  show ?thesis
  proof (cases "truthy_num ?pid")
    case False
    with Inr show ?thesis by (simp add: handleCheckoutSessionCompleted_def Let_def)
  next
    case True
    then obtain pid where pid: "?pid = Some pid" "pid \<noteq> 0"
      by (cases ?pid) auto
    show ?thesis
    proof (cases "findOne (\<lambda>p. Some (purchaseId p) = Some pid) (purchases d)")
      case None
      with Inr pid show ?thesis by (simp add: handleCheckoutSessionCompleted_def Let_def)
    next
      case (Some ip)
      obtain i p where ip: "ip = (i, p)" by (cases ip)
      from findOne_SomeD [of _ "purchases d" i p] Some ip
      have f: "i < length (purchases d)" "purchases d ! i = p" by simp_all
      let ?p1 = "mark_completed e session p"
      let ?d1 = "d\<lparr>purchases := (purchases d)[i := ?p1]\<rparr>"
      let ?prd = "map_option snd (findProduct (productSlug p) (\<lambda>_. True) (products d))"
      from handleCheckoutSessionCompleted_found [OF Inr pid Some [unfolded ip]]
      obtain ns where d': "fst (handleCheckoutSessionCompleted e session d)
                             = (fst (grant_role e i ?p1 ?prd ?d1))\<lparr>notifications := ns\<rparr>"
        by blast
      from grant_role_result [of e i ?p1 ?prd ?d1]
      have "purchases (fst (grant_role e i ?p1 ?prd ?d1)) = (purchases d)[i := ?p1]
            \<or> (\<exists>x. purchases (fst (grant_role e i ?p1 ?prd ?d1))
                = (purchases d)[i := ?p1\<lparr>expiresAt := x\<rparr>])"
        by auto
      then show ?thesis
      proof (elim disjE exE)
        assume "purchases (fst (grant_role e i ?p1 ?prd ?d1)) = (purchases d)[i := ?p1]"
        with d' f show ?thesis by (intro disjI2 exI [of _ i] exI [of _ ?p1]) simp
      next
        fix x
        assume "purchases (fst (grant_role e i ?p1 ?prd ?d1))
                  = (purchases d)[i := ?p1\<lparr>expiresAt := x\<rparr>]"
        with d' f show ?thesis
          by (intro disjI2 exI [of _ i] exI [of _ "?p1\<lparr>expiresAt := x\<rparr>"]) simp
      qed
    qed
  qed
qed

lemma handlePaymentFailed_shape:
  "purchases (fst (handlePaymentFailed e intent d)) = purchases d
   \<or> (\<exists>i p'. i < length (purchases d)
         \<and> purchases (fst (handlePaymentFailed e intent d)) = (purchases d)[i := p']
         \<and> status p' = Failed
         \<and> purchaseId p' = purchaseId (purchases d ! i)
         \<and> downloadCount p' = downloadCount (purchases d ! i)
         \<and> maxDownloads p' = maxDownloads (purchases d ! i))"
proof (cases "findOne (\<lambda>p. stripePaymentId p = Some (obj_id intent)) (purchases d)")
  case None
  then show ?thesis by (simp add: handlePaymentFailed_def)
next
  case (Some ip)
  obtain i p where ip: "ip = (i, p)" by (cases ip)
  from findOne_SomeD [of _ "purchases d" i p] Some ip
  have f: "i < length (purchases d)" "purchases d ! i = p" by simp_all
  have "purchases (fst (handlePaymentFailed e intent d)) = (purchases d)[i := mark_failed intent p]"
    using Some ip by (simp add: handlePaymentFailed_def Let_def split: sum.splits)
  with f show ?thesis
    by (intro disjI2 exI [of _ i] exI [of _ "mark_failed intent p"]) simp
qed

text \<open>The two routes that create a purchase.\<close>

lemma new_purchase_fields [simp]:
  "status (new_purchase t u s m a c) = Pending"
  "downloadCount (new_purchase t u s m a c) = 0"
  "maxDownloads (new_purchase t u s m a c) = 5"
  "amount (new_purchase t u s m a c) = a"
  "currency (new_purchase t u s m a c) = c"
  "userId (new_purchase t u s m a c) = u"
  "paymentMethod (new_purchase t u s m a c) = m"
  "licenseKey (new_purchase t u s m a c) = None"
  "expiresAt (new_purchase t u s m a c) = None"
  by (simp_all add: new_purchase_def)

lemma save_new_purchase_result:
  "save_new_purchase e p ps = Inl ValidationError \<and> \<not> validate_purchase p
   \<or> (\<exists>p1. save_new_purchase e p ps = Inr (p1, ps @ [p1])
         \<and> status p1 = status p \<and> amount p1 = amount p \<and> currency p1 = currency p
         \<and> downloadCount p1 = downloadCount p \<and> maxDownloads p1 = maxDownloads p
         \<and> userId p1 = userId p \<and> productSlug p1 = productSlug p
         \<and> duration p1 = duration p \<and> durationDays p1 = durationDays p
         \<and> validate_purchase p)"
  by (simp add: save_new_purchase_def Let_def)

lemma create_checkout_session_shape:
  "purchases (fst (create_checkout_session cfg e req d)) = purchases d
   \<or> (\<exists>p'. purchases (fst (create_checkout_session cfg e req d)) = purchases d @ [p']
         \<and> status p' = Pending \<and> downloadCount p' = 0 \<and> maxDownloads p' = 5)"
proof (cases "stripe cfg")
  case None
  then show ?thesis by (simp add: create_checkout_session_def)
next
  case (Some client)
  note client = this
  show ?thesis
  proof (cases "findProduct (co_productSlug req) active (products d)")
    case None
    with client show ?thesis by (simp add: create_checkout_session_def)
  next
    case (Some jp)
    obtain j prd where jp: "jp = (j, prd)" by (cases jp)
    note found = Some [unfolded jp]
    show ?thesis
    proof (cases "find (\<lambda>t. Some (tierDuration t) = co_duration req) (durations prd)")
      case None
      with client found show ?thesis by (simp add: create_checkout_session_def)
    next
      case (Some tier)
      note tier = this
      show ?thesis
      proof (cases "price tier")
        case None
        with client found tier show ?thesis by (simp add: create_checkout_session_def)
      next
        case (Some amt)
        let ?cur = "currency_or_usd prd"
        let ?p0 = "(new_purchase (now e) (co_user req) (productId prd) ''Card'' amt ?cur)
                     \<lparr>productSlug := co_productSlug req, duration := co_duration req,
                      durationDays := days tier\<rparr>"
        from save_new_purchase_result [of e ?p0 "purchases d"]
        show ?thesis
        proof
          assume "save_new_purchase e ?p0 (purchases d) = Inl ValidationError \<and> \<not> validate_purchase ?p0"
          with client found tier Some show ?thesis
            by (simp add: create_checkout_session_def Let_def)
        next
          assume "\<exists>p1. save_new_purchase e ?p0 (purchases d) = Inr (p1, purchases d @ [p1])
             \<and> status p1 = status ?p0 \<and> amount p1 = amount ?p0 \<and> currency p1 = currency ?p0
             \<and> downloadCount p1 = downloadCount ?p0 \<and> maxDownloads p1 = maxDownloads ?p0
             \<and> userId p1 = userId ?p0 \<and> productSlug p1 = productSlug ?p0
             \<and> duration p1 = duration ?p0 \<and> durationDays p1 = durationDays ?p0
             \<and> validate_purchase ?p0"
          then obtain p1 where p1: "save_new_purchase e ?p0 (purchases d) = Inr (p1, purchases d @ [p1])"
            "status p1 = Pending" "downloadCount p1 = 0" "maxDownloads p1 = 5"
            by auto
          show ?thesis
          proof (cases "sessions_create client p1 prd tier")
            case None
            with client found tier Some p1 show ?thesis
              by (simp add: create_checkout_session_def Let_def)
          next
            case (Some su)
            obtain sid url where su: "su = (sid, url)" by (cases su)
            from client found tier \<open>price tier = Some amt\<close> p1 Some su show ?thesis
              by (simp add: create_checkout_session_def Let_def)
          qed
        qed
      qed
    qed
  qed
qed

lemma completePurchase_fields [simp]:
  "status (completePurchase x t p) = Completed"
  "downloadCount (completePurchase x t p) = downloadCount p"
  "maxDownloads (completePurchase x t p) = maxDownloads p"
  "purchaseId (completePurchase x t p) = purchaseId p"
  by (simp_all add: completePurchase_def Let_def)

lemma post_purchase_shape:
  "purchases (fst (post_purchase e req d)) = purchases d
   \<or> (\<exists>p'. purchases (fst (post_purchase e req d)) = purchases d @ [p']
         \<and> status p' = Completed \<and> downloadCount p' = 0 \<and> maxDownloads p' = 5)"
proof (cases "findOne (\<lambda>s. Some (sw_id s) = pr_softwareId req) (softwares d)")
  case None
  then show ?thesis by (simp add: post_purchase_def)
next
  case (Some js)
  obtain j sw where js: "js = (j, sw)" by (cases js)
  note found = Some [unfolded js]
  show ?thesis
  proof (cases "findOne (\<lambda>p. userId p = pr_user req \<and> Some (softwareId p) = pr_softwareId req
                              \<and> status p = Completed) (purchases d)")
    case (Some owned)
    with found show ?thesis by (simp add: post_purchase_def)
  next
    case None
    note fresh = this
    show ?thesis
    proof (cases "pr_paymentMethod req")
      case None
      with found fresh show ?thesis by (simp add: post_purchase_def)
    next
      case (Some pm)
      let ?p0 = "new_purchase (now e) (pr_user req) (sw_id sw) pm (sw_price sw) (sw_currency sw)"
      from save_new_purchase_result [of e ?p0 "purchases d"]
      show ?thesis
      proof
        assume "save_new_purchase e ?p0 (purchases d) = Inl ValidationError \<and> \<not> validate_purchase ?p0"
        with found fresh Some show ?thesis by (simp add: post_purchase_def)
      next
        assume "\<exists>p1. save_new_purchase e ?p0 (purchases d) = Inr (p1, purchases d @ [p1])
             \<and> status p1 = status ?p0 \<and> amount p1 = amount ?p0 \<and> currency p1 = currency ?p0
             \<and> downloadCount p1 = downloadCount ?p0 \<and> maxDownloads p1 = maxDownloads ?p0
             \<and> userId p1 = userId ?p0 \<and> productSlug p1 = productSlug ?p0
             \<and> duration p1 = duration ?p0 \<and> durationDays p1 = durationDays ?p0
             \<and> validate_purchase ?p0"
        then obtain p1 where p1: "save_new_purchase e ?p0 (purchases d) = Inr (p1, purchases d @ [p1])"
          "downloadCount p1 = 0" "maxDownloads p1 = 5"
          by auto
        with found fresh Some show ?thesis by (simp add: post_purchase_def Let_def)
      qed
    qed
  qed
qed

lemma webhook_shape:
  "purchases (fst (webhook cfg e req d)) = purchases d
   \<or> (\<exists>i p'. i < length (purchases d)
         \<and> purchases (fst (webhook cfg e req d)) = (purchases d)[i := p']
         \<and> (status p' = Completed \<or> status p' = Failed)
         \<and> purchaseId p' = purchaseId (purchases d ! i)
         \<and> downloadCount p' = downloadCount (purchases d ! i)
         \<and> maxDownloads p' = maxDownloads (purchases d ! i))"
proof (cases "stripe cfg")
  case None
  then show ?thesis by (simp add: webhook_def)
next
  case (Some client)
  show ?thesis
  proof (cases "constructEvent client (wh_body req) (wh_signature req) (webhookSecret cfg)")
    case (Inl msg)
    with Some show ?thesis by (simp add: webhook_def)
  next
    case (Inr ev)
    with Some have w: "fst (webhook cfg e req d) = fst (handle_event e ev d)"
      by (simp add: webhook_def split: prod.splits option.splits)
    have "handle_event e ev d = handleCheckoutSessionCompleted e (ev_object ev) d
          \<or> handle_event e ev d = handlePaymentFailed e (ev_object ev) d
          \<or> handle_event e ev d = (d, None)"
      by (simp add: handle_event_def)
    then consider (completed) "handle_event e ev d = handleCheckoutSessionCompleted e (ev_object ev) d"
      | (failed) "handle_event e ev d = handlePaymentFailed e (ev_object ev) d"
      | (ignored) "handle_event e ev d = (d, None)"
      by blast
    then show ?thesis
    proof cases
      case completed
      with w handleCheckoutSessionCompleted_shape [of e "ev_object ev" d] show ?thesis
        by (simp only:) blast
    next
      case failed
      with w handlePaymentFailed_shape [of e "ev_object ev" d] show ?thesis
        by (simp only:) blast
    next
      case ignored
      with w show ?thesis by simp
    qed
  qed
qed

subsection \<open>The router\<close>

lemma serve_shape:
  "purchases (fst (serve cfg e r d)) = purchases d
   \<or> (\<exists>i p'. i < length (purchases d)
         \<and> purchases (fst (serve cfg e r d)) = (purchases d)[i := p']
         \<and> purchaseId p' = purchaseId (purchases d ! i)
         \<and> maxDownloads p' = maxDownloads (purchases d ! i)
         \<and> (status p' = status (purchases d ! i)
               \<and> downloadCount (purchases d ! i) < maxDownloads (purchases d ! i)
               \<and> downloadCount p' = downloadCount (purchases d ! i) + 1
               \<and> (\<exists>q. r = RedeemDownload q)
             \<or> (status p' = Completed \<or> status p' = Failed)
               \<and> downloadCount p' = downloadCount (purchases d ! i)
               \<and> (\<exists>q. r = StripeWebhook q)))
   \<or> (\<exists>p'. purchases (fst (serve cfg e r d)) = purchases d @ [p']
         \<and> downloadCount p' = 0 \<and> maxDownloads p' = 5
         \<and> (status p' = Pending \<and> (\<exists>q. r = CreateCheckoutSession q)
             \<or> status p' = Completed \<and> (\<exists>q. r = CreatePurchase q)))"
proof (cases r)
  case (CreateCheckoutSession q)
  with create_checkout_session_shape [of cfg e q d] show ?thesis by auto
next
  case (CreatePurchase q)
  with post_purchase_shape [of e q d] show ?thesis by auto
next
  case (RedeemDownload q)
  with post_download_shape [of e q d] show ?thesis by auto
next
  case (StripeWebhook q)
  with webhook_shape [of cfg e q d] show ?thesis by auto
qed

lemma serve_length: "length (purchases d) \<le> length (purchases (fst (serve cfg e r d)))"
  using serve_shape [of cfg e r d] by auto

lemma serve_existing:
  assumes "i < length (purchases d)"
  shows "purchaseId (purchases (fst (serve cfg e r d)) ! i) = purchaseId (purchases d ! i)
         \<and> (status (purchases (fst (serve cfg e r d)) ! i) = status (purchases d ! i)
             \<or> (status (purchases (fst (serve cfg e r d)) ! i) = Completed
                 \<or> status (purchases (fst (serve cfg e r d)) ! i) = Failed)
               \<and> (\<exists>q. r = StripeWebhook q))"
  using serve_shape [of cfg e r d] assms
  by (auto simp: nth_list_update nth_append split: if_splits)

lemma serve_created:
  assumes "length (purchases d) \<le> i" and "i < length (purchases (fst (serve cfg e r d)))"
  shows "status (purchases (fst (serve cfg e r d)) ! i) = Pending \<and> (\<exists>q. r = CreateCheckoutSession q)
         \<or> status (purchases (fst (serve cfg e r d)) ! i) = Completed \<and> (\<exists>q. r = CreatePurchase q)"
  using serve_shape [of cfg e r d] assms
  by (auto simp: nth_append)

lemma list_all_update:
  "list_all P xs \<Longrightarrow> P y \<Longrightarrow> list_all P (xs[i := y])"
  using set_update_subset_insert [of xs i y] by (auto simp: list_all_iff)

lemma counters_ok_serve:
  assumes "counters_ok d"
  shows "counters_ok (fst (serve cfg e r d))"
proof -
  let ?ok = "\<lambda>p. downloadCount p \<le> maxDownloads p"
  from assms have all: "list_all ?ok (purchases d)"
    by (simp add: counters_ok_def)
  then have nth: "?ok (purchases d ! i)" if "i < length (purchases d)" for i
    using that by (simp add: list_all_length)
  have "purchases (fst (serve cfg e r d)) = purchases d
        \<or> (\<exists>i p'. purchases (fst (serve cfg e r d)) = (purchases d)[i := p'] \<and> ?ok p')
        \<or> (\<exists>p'. purchases (fst (serve cfg e r d)) = purchases d @ [p'] \<and> ?ok p')"
    using serve_shape [of cfg e r d] nth by (elim disjE exE conjE) force+
  then show ?thesis
    using all by (auto simp: counters_ok_def list_all_update)
qed

lemma counters_ok_serve_all:
  "counters_ok d \<Longrightarrow> counters_ok (serve_all cfg rs d)"
  by (induction rs arbitrary: d) (simp_all add: counters_ok_serve)

subsection \<open>The download gate\<close>

lemma post_download_denied:
  assumes "parseInt (dl_id req) = Some pid"
    and "findOne (\<lambda>p. purchaseId p = pid) (purchases d) = Some (i, p)"
    and "dl_user req = userId p"
    and "\<not> canDownload (now e) p"
  shows "post_download e req d = (d, 400, failure (denial_message (now e) p))"
  using assms by (simp add: post_download_def)

lemma post_download_granted:
  assumes "parseInt (dl_id req) = Some pid"
    and "findOne (\<lambda>p. purchaseId p = pid) (purchases d) = Some (i, p)"
    and "dl_user req = userId p"
    and "canDownload (now e) p"
  shows "fst (post_download e req d) =
           d\<lparr>purchases := (purchases d)
                [i := p\<lparr>downloadCount := downloadCount p + 1, lastDownload := Some (now e)\<rparr>]\<rparr>
         \<and> fst (snd (post_download e req d)) = 200"
proof -
  from assms(4) have "downloadCount p < maxDownloads p"
    by (auto simp: canDownload_def split: if_splits)
  with assms show ?thesis
    by (simp add: post_download_def recordDownload_def Let_def)
qed

lemma redeem_all_counts:
  assumes "parseInt (dl_id req) = Some pid"
    and "findOne (\<lambda>q. purchaseId q = pid) (purchases d) = Some (i, p)"
    and "dl_user req = userId p"
    and "status p = Completed"
    and "downloadCount p + int (length es) \<le> maxDownloads p"
    and "\<forall>e \<in> set es. \<not> expired (now e) p"
  shows "\<exists>d' rs p'. redeem_all es req d = (d', rs)
           \<and> length rs = length es \<and> (\<forall>r \<in> set rs. fst r = 200)
           \<and> findOne (\<lambda>q. purchaseId q = pid) (purchases d') = Some (i, p')
           \<and> downloadCount p' = downloadCount p + int (length es)
           \<and> maxDownloads p' = maxDownloads p
           \<and> status p' = Completed \<and> userId p' = userId p \<and> expiresAt p' = expiresAt p"
  using assms
proof (induction es arbitrary: d p)
  case Nil
  then show ?case by simp
next
  case (Cons e es)
  let ?p1 = "p\<lparr>downloadCount := downloadCount p + 1, lastDownload := Some (now e)\<rparr>"
  let ?d1 = "d\<lparr>purchases := (purchases d)[i := ?p1]\<rparr>"
  from Cons.prems have can: "canDownload (now e) p"
    by (simp add: canDownload_def)
  from post_download_granted [OF Cons.prems(1,2,3) can]
  obtain body where step: "post_download e req d = (?d1, 200, body)"
    by (cases "post_download e req d") auto
  from findOne_SomeD [OF Cons.prems(2)] have "purchaseId p = pid" by simp
  then have "purchaseId ?p1 = pid" by simp
  from findOne_update [OF Cons.prems(2), of ?p1, OF this]
  have f1: "findOne (\<lambda>q. purchaseId q = pid) (purchases ?d1) = Some (i, ?p1)" by simp
  have e1: "\<forall>e \<in> set es. \<not> expired (now e) ?p1"
    using Cons.prems(6) by (simp add: expired_def)
  have c1: "downloadCount ?p1 + int (length es) \<le> maxDownloads ?p1"
    using Cons.prems(5) by simp
  from Cons.IH [OF Cons.prems(1) f1 _ _ c1 e1] Cons.prems(3,4)
  obtain d' rs p' where ih: "redeem_all es req ?d1 = (d', rs)"
    "length rs = length es" "\<forall>r \<in> set rs. fst r = 200"
    "findOne (\<lambda>q. purchaseId q = pid) (purchases d') = Some (i, p')"
    "downloadCount p' = downloadCount ?p1 + int (length es)"
    "maxDownloads p' = maxDownloads ?p1"
    "status p' = Completed" "userId p' = userId ?p1" "expiresAt p' = expiresAt ?p1"
    by auto
  from step ih(1) have "redeem_all (e # es) req d = (d', (200, body) # rs)" by simp
  with ih show ?case by simp
qed

subsection \<open>Granting the role\<close>


lemma entitlement_expiry_throws:
  "entitlement_expiry e p = Inl err \<Longrightarrow> err = RangeError"
  by (auto simp: entitlement_expiry_def split: option.splits if_splits)

lemma new_userRole_fields [simp]:
  "ur_userUid (new_userRole t u r b x urs) = u"
  "ur_roleId (new_userRole t u r b x urs) = r"
  "ur_expiresAt (new_userRole t u r b x urs) = x"
  by (simp_all add: new_userRole_def)

lemma handleCheckoutSessionCompleted_grants:
  assumes "session_reference session = Inr ref"
    and "(case ref of None \<Rightarrow> None | Some s \<Rightarrow> parseInt s) = Some pid"
    and "pid \<noteq> 0"
    and "findOne (\<lambda>p. Some (purchaseId p) = Some pid) (purchases d) = Some (i, p)"
    and "findProduct (productSlug p) (\<lambda>_. True) (products d) = Some (j, pr)"
    and "roleId pr = Some r" and "r \<noteq> 0"
    and "findOne (\<lambda>ro. Some (roleIdent ro) = Some r) (roles d) = Some (k, ro)"
    and "entitlement_expiry e p = Inr x"
  shows "\<exists>ns. fst (handleCheckoutSessionCompleted e session d) =
           d\<lparr>purchases := (purchases d)[i := (mark_completed e session p)\<lparr>expiresAt := x\<rparr>],
             userRoles := userRoles d @
                  [new_userRole (now e) (userId p) r (userId p) x (userRoles d)],
             notifications := ns\<rparr>"
proof -
  let ?p1 = "mark_completed e session p"
  let ?d1 = "d\<lparr>purchases := (purchases d)[i := ?p1]\<rparr>"
  from findOne_SomeD [OF assms(8)] have rid: "roleIdent ro = r" by simp
  have g: "grant_role e i ?p1 (Some pr) ?d1 =
             (d\<lparr>purchases := (purchases d)[i := ?p1\<lparr>expiresAt := x\<rparr>],
                userRoles := userRoles d @
                  [new_userRole (now e) (userId p) r (userId p) x (userRoles d)]\<rparr>, None)"
    using assms(6,7,8,9) rid by (simp add: grant_role_def Let_def)
  from handleCheckoutSessionCompleted_found [OF assms(1-4), of e]
  obtain ns where "fst (handleCheckoutSessionCompleted e session d)
                     = (fst (grant_role e i ?p1 (Some pr) ?d1))\<lparr>notifications := ns\<rparr>"
    using assms(5) by auto
  with g show ?thesis by auto
qed

lemma handleCheckoutSessionCompleted_out_of_range:
  assumes "session_reference session = Inr ref"
    and "(case ref of None \<Rightarrow> None | Some s \<Rightarrow> parseInt s) = Some pid"
    and "pid \<noteq> 0"
    and "findOne (\<lambda>p. Some (purchaseId p) = Some pid) (purchases d) = Some (i, p)"
    and "findProduct (productSlug p) (\<lambda>_. True) (products d) = Some (j, pr)"
    and "roleId pr = Some r" and "r \<noteq> 0"
    and "findOne (\<lambda>ro. Some (roleIdent ro) = Some r) (roles d) = Some (k, ro)"
    and "entitlement_expiry e p = Inl err"
  shows "handleCheckoutSessionCompleted e session d =
           (d\<lparr>purchases := (purchases d)[i := mark_completed e session p]\<rparr>, Some RangeError)"
proof -
  from entitlement_expiry_throws [OF assms(9)] assms(9)
  have "entitlement_expiry e p = Inl RangeError" by simp
  with assms(1-8) show ?thesis
    by (simp add: handleCheckoutSessionCompleted_def grant_role_def Let_def)
qed

subsection \<open>Creating the checkout session\<close>


subsection \<open>Status along a run\<close>

lemma call_method_status:
  "call_method m p = Inr p' \<Longrightarrow>
     status p' = status p \<or> status p' = Completed \<or> status p' = Failed \<or> status p' = Refunded"
  by (cases m)
     (auto simp: completePurchase_def failPurchase_def refundPurchase_def recordDownload_def
        Let_def split: if_splits)

lemma call_methods_not_pending:
  "status p \<noteq> Pending \<Longrightarrow> status (call_methods ms p) \<noteq> Pending"
proof (induction ms arbitrary: p)
  case Nil
  then show ?case by simp
next
  case (Cons m ms)
  show ?case
  proof (cases "call_method m p")
    case (Inl err)
    with Cons show ?thesis by simp
  next
    case (Inr p')
    from call_method_status [OF Inr] Cons.prems have "status p' \<noteq> Pending" by auto
    with Cons.IH [of p'] Inr show ?thesis by simp
  qed
qed

lemma serve_all_not_pending:
  "i < length (purchases d) \<Longrightarrow> status (purchases d ! i) \<noteq> Pending \<Longrightarrow>
     i < length (purchases (serve_all cfg rs d))
     \<and> status (purchases (serve_all cfg rs d) ! i) \<noteq> Pending"
proof (induction rs arbitrary: d)
  case Nil
  then show ?case by simp
next
  case (Cons er rs)
  let ?d1 = "fst (serve cfg (fst er) (snd er) d)"
  from serve_length [of d cfg "fst er" "snd er"] Cons.prems(1)
  have l: "i < length (purchases ?d1)" by simp
  from serve_existing [OF Cons.prems(1), of cfg "fst er" "snd er"] Cons.prems(2)
  have "status (purchases ?d1 ! i) \<noteq> Pending" by auto
  from Cons.IH [OF l this] show ?case by simp
qed

lemma serve_all_keeps:
  "i < length (purchases d) \<Longrightarrow>
     i < length (purchases (serve_all cfg rs d))
     \<and> purchaseId (purchases (serve_all cfg rs d) ! i) = purchaseId (purchases d ! i)"
proof (induction rs arbitrary: d)
  case Nil
  then show ?case by simp
next
  case (Cons er rs)
  let ?d1 = "fst (serve cfg (fst er) (snd er) d)"
  from serve_length [of d cfg "fst er" "snd er"] Cons.prems(1)
  have l: "i < length (purchases ?d1)" by simp
  from serve_existing [OF Cons.prems(1), of cfg "fst er" "snd er"]
  have "purchaseId (purchases ?d1 ! i) = purchaseId (purchases d ! i)" by simp
  with Cons.IH [OF l] show ?case by simp
qed

subsection \<open>Evaluating the shop\<close>

lemmas shop_defs =
  shop_def pending_purchase_def pro_tool_def pro_tier_def vip_def paid_session_def
  bare_session_def failed_intent_def delivering_def provider_def signed_def forged_def
  completed_event_def bare_event_def failed_event_def pro_request_def redeem_request_def
  completed_purchase_def boundary_purchase_def listing_def catalogue_def listing_request_def
  at_time_def new_purchase_def half_day_shop_def endless_shop_def clock_change_at_def
  shouted_request_def

lemma parse_1: "parseInt ''1'' = Some 1"
  by (simp add: parseInt_def is_space_def digit_of_def)


lemma find_completed:
  "findOne (\<lambda>p. purchaseId p = 1) (purchases paid_shop) = Some (0, completed_purchase)"
  by (simp add: findOne_def paid_shop_def shop_defs)

lemma paid_reference: "session_reference paid_session = Inr (Some ''1'')"
  by (simp add: session_reference_def paid_session_def)

lemma paid_parse: "(case Some ''1'' of None \<Rightarrow> None | Some s \<Rightarrow> parseInt s) = Some 1"
  by (simp add: parse_1)

lemma cast_pro_tool: "cast_slug (Some ''pro-tool'') = Some ''pro-tool''"
  by code_simp



lemmas handler_defs =
  handleCheckoutSessionCompleted_def session_reference_def parse_1 findOne_def findProduct_def
  cast_pro_tool mark_completed_def grant_role_def entitlement_expiry_def setDate_plus_def
  timeClip_def msPerDay_def createNotification_def completion_message_def Let_def nextId_def


lemma shop_role:
  "findOne (\<lambda>ro. Some (roleIdent ro) = Some 3) (roles shop) = Some (0, vip)"
  by (simp add: findOne_def shop_defs)

lemma ordered_shop_eq:
  "ordered_shop =
     shop\<lparr>purchases := [pending_purchase\<lparr>licenseKey := Some (generateLicenseKey (\<lambda>i. i)),
                                            stripeSessionId := Some ''cs_1''\<rparr>]\<rparr>"
  by (simp add: ordered_shop_def empty_shop_def create_checkout_session_def
      save_new_purchase_def validate_purchase_def currency_or_usd_def findOne_def
      findProduct_def cast_pro_tool nextId_def Let_def shop_defs)

lemmas run_defs =
  webhook_def handle_event_def handleCheckoutSessionCompleted_def handlePaymentFailed_def
  session_reference_def parse_1 findOne_def findProduct_def cast_pro_tool mark_completed_def
  mark_failed_def failure_note_def grant_role_def new_userRole_def entitlement_expiry_def
  setDate_plus_def timeClip_def msPerDay_def createNotification_def completion_message_def
  nextId_def Let_def


lemma after_payment_status: "map status (purchases after_payment) = [Completed]"
  by (simp add: after_payment_def run_defs shop_defs)

lemma after_failure_status: "map status (purchases after_failure) = [Failed]"
  by (simp add: after_failure_def after_payment_def run_defs shop_defs)

section \<open>The claims\<close>

subsection \<open>C1: the download counter never passes its limit\<close>

text \<open>
  Claim C1. \<^verbatim>\<open>recordDownload\<close> fails with \<open>LimitExceeded\<close> whenever
  \<open>downloadCount \<ge> maxDownloads\<close> and otherwise adds one to \<open>downloadCount\<close>; the invariant
  \<open>downloadCount \<le> maxDownloads\<close> of all stored purchases is kept by every run of requests;
  and when a completed purchase with \<open>downloadCount = 0\<close> and \<open>maxDownloads = N\<close> is redeemed
  at \<open>N\<close> instants at which it has not expired, all \<open>N\<close> requests answer 200, the counter
  then equals the limit, a further \<^verbatim>\<open>recordDownload\<close> fails with \<open>LimitExceeded\<close>, and a
  further redeem request at any instant answers 400 ``Download limit exceeded'' and leaves
  the store, and so the counter, unchanged.
\<close>

theorem download_limit:
  "(\<forall>t p. recordDownload t p =
       (if downloadCount p \<ge> maxDownloads p then Inl LimitExceeded
        else Inr (p\<lparr>downloadCount := downloadCount p + 1, lastDownload := Some t\<rparr>)))
   \<and> (\<forall>cfg rs d. counters_ok d \<longrightarrow> counters_ok (serve_all cfg rs d))
   \<and> (\<forall>es (req::download_request) (d::db) pid i p.
         parseInt (dl_id req) = Some pid
         \<and> findOne (\<lambda>q. purchaseId q = pid) (purchases d) = Some (i, p)
         \<and> dl_user req = userId p \<and> status p = Completed
         \<and> downloadCount p = 0 \<and> maxDownloads p = int (length es)
         \<and> (\<forall>e \<in> set es. \<not> expired (now e) p)
         \<longrightarrow> (\<exists>d' rs. redeem_all es req d = (d', rs)
               \<and> length rs = length es \<and> (\<forall>r \<in> set rs. fst r = 200)
               \<and> downloadCount (purchases d' ! i) = maxDownloads (purchases d' ! i)
               \<and> maxDownloads (purchases d' ! i) = int (length es)
               \<and> recordDownload t' (purchases d' ! i) = Inl LimitExceeded
               \<and> (\<forall>e'. post_download e' req d'
                          = (d', 400, failure ''Download limit exceeded''))))"
proof (intro conjI allI impI)
  fix t and p :: purchase
  show "recordDownload t p =
       (if downloadCount p \<ge> maxDownloads p then Inl LimitExceeded
        else Inr (p\<lparr>downloadCount := downloadCount p + 1, lastDownload := Some t\<rparr>))"
    by (simp add: recordDownload_def)
next
  fix cfg :: config and rs and d :: db
  assume "counters_ok d"
  then show "counters_ok (serve_all cfg rs d)" by (rule counters_ok_serve_all)
next
  fix es :: "env list" and req :: download_request and d :: db and pid i and p :: purchase
  assume a: "parseInt (dl_id req) = Some pid
         \<and> findOne (\<lambda>q. purchaseId q = pid) (purchases d) = Some (i, p)
         \<and> dl_user req = userId p \<and> status p = Completed
         \<and> downloadCount p = 0 \<and> maxDownloads p = int (length es)
         \<and> (\<forall>e \<in> set es. \<not> expired (now e) p)"
  then have "downloadCount p + int (length es) \<le> maxDownloads p" by simp
  with a redeem_all_counts [of req pid d i p es]
  obtain d' rs p' where r: "redeem_all es req d = (d', rs)"
    "length rs = length es" "\<forall>r \<in> set rs. fst r = 200"
    "findOne (\<lambda>q. purchaseId q = pid) (purchases d') = Some (i, p')"
    "downloadCount p' = downloadCount p + int (length es)"
    "maxDownloads p' = maxDownloads p"
    "status p' = Completed" "userId p' = userId p"
    by auto
  from findOne_SomeD [OF r(4)] have nth: "purchases d' ! i = p'" by simp
  from a r have full: "downloadCount p' = maxDownloads p'" "maxDownloads p' = int (length es)"
    by simp_all
  have denied: "post_download e' req d' = (d', 400, failure ''Download limit exceeded'')" for e'
  proof -
    from full r(7) have "\<not> canDownload (now e') p'" by (simp add: canDownload_def)
    from post_download_denied [OF _ r(4) _ this] a r(8)
    have "post_download e' req d' = (d', 400, failure (denial_message (now e') p'))" by simp
    with full r(7) show ?thesis by (simp add: denial_message_def)
  qed
  from r(1,2,3) nth full denied
  show "\<exists>d' rs. redeem_all es req d = (d', rs)
               \<and> length rs = length es \<and> (\<forall>r \<in> set rs. fst r = 200)
               \<and> downloadCount (purchases d' ! i) = maxDownloads (purchases d' ! i)
               \<and> maxDownloads (purchases d' ! i) = int (length es)
               \<and> recordDownload t' (purchases d' ! i) = Inl LimitExceeded
               \<and> (\<forall>e'. post_download e' req d'
                          = (d', 400, failure ''Download limit exceeded''))"
    by (simp add: recordDownload_def)
qed

text \<open>
  C1 at the paid shop: five redeems of the default limit of five succeed, the sixth is
  refused.
\<close>

theorem download_limit_witness:
  "counters_ok paid_shop
   \<and> counters_ok (serve_all (provider completed_event)
                    [(at_time 2000, RedeemDownload redeem_request)] paid_shop)
   \<and> (\<exists>d' rs. redeem_all five_instants redeem_request paid_shop = (d', rs)
         \<and> map fst rs = [200, 200, 200, 200, 200]
         \<and> downloadCount (purchases d' ! 0) = 5
         \<and> post_download (at_time 7000) redeem_request d'
             = (d', 400, failure ''Download limit exceeded''))"
proof -
  have inv: "counters_ok paid_shop"
    by (simp add: counters_ok_def paid_shop_def shop_defs)
  have h: "parseInt (dl_id redeem_request) = Some 1
      \<and> findOne (\<lambda>q. purchaseId q = 1) (purchases paid_shop) = Some (0, completed_purchase)
      \<and> dl_user redeem_request = userId completed_purchase
      \<and> status completed_purchase = Completed
      \<and> downloadCount completed_purchase = 0
      \<and> maxDownloads completed_purchase = int (length five_instants)
      \<and> (\<forall>e \<in> set five_instants. \<not> expired (now e) completed_purchase)"
    by (simp add: parse_1 find_completed redeem_request_def five_instants_def expired_def
        shop_defs)
  note dl = download_limit [where t' = 7000]
  from dl [THEN conjunct2, THEN conjunct1, rule_format, OF inv]
  have inv': "counters_ok (serve_all (provider completed_event)
                    [(at_time 2000, RedeemDownload redeem_request)] paid_shop)" .
  from dl [THEN conjunct2, THEN conjunct2, rule_format, OF h]
  obtain d' rs where r: "redeem_all five_instants redeem_request paid_shop = (d', rs)"
    "length rs = length five_instants" "\<forall>r \<in> set rs. fst r = 200"
    "downloadCount (purchases d' ! 0) = maxDownloads (purchases d' ! 0)"
    "maxDownloads (purchases d' ! 0) = int (length five_instants)"
    "\<forall>e'. post_download e' redeem_request d' = (d', 400, failure ''Download limit exceeded'')"
    by blast
  from r(2,3) have "map fst rs = replicate (length five_instants) 200"
    by (simp add: list_eq_iff_nth_eq)
  then have codes: "map fst rs = [200, 200, 200, 200, 200]"
    by (simp add: five_instants_def numeral_eq_Suc)
  from r(4,5) have full: "downloadCount (purchases d' ! 0) = 5"
    by (simp add: five_instants_def)
  from r(6) have denied: "post_download (at_time 7000) redeem_request d'
             = (d', 400, failure ''Download limit exceeded'')" by (rule spec)
  have "\<exists>d' rs. redeem_all five_instants redeem_request paid_shop = (d', rs)
         \<and> map fst rs = [200, 200, 200, 200, 200]
         \<and> downloadCount (purchases d' ! 0) = 5
         \<and> post_download (at_time 7000) redeem_request d'
             = (d', 400, failure ''Download limit exceeded'')"
  proof (intro exI conjI)
    show "redeem_all five_instants redeem_request paid_shop = (d', rs)" by (rule r(1))
    show "map fst rs = [200, 200, 200, 200, 200]" by (rule codes)
    show "downloadCount (purchases d' ! 0) = 5" by (rule full)
    show "post_download (at_time 7000) redeem_request d'
             = (d', 400, failure ''Download limit exceeded'')" by (rule denied)
  qed
  with inv inv' show ?thesis by (intro conjI)
qed

subsection \<open>C2: one entitlement per delivered completion\<close>

text \<open>
  C2 as stated fails when the product names a role that the role collection does not hold:
  the handler guards the grant by \<^verbatim>\<open>if (role)\<close>, so the pending purchase of ``pro-tool''
  (\<^verbatim>\<open>roleId\<close> 3) is completed and no entitlement is created. It also fails when the role
  exists and the expiry is no JavaScript date: for a purchase of 100000001 days the purchase
  is completed and saved, \<^verbatim>\<open>toISOString\<close> then throws a \<^verbatim>\<open>RangeError\<close>, and no
  entitlement is created.
\<close>

theorem dangling_role_counterexample:
  "status (purchases (shop\<lparr>roles := []\<rparr>) ! 0) = Pending
   \<and> roleId pro_tool = Some 3
   \<and> findProduct (productSlug pending_purchase) (\<lambda>_. True) (products (shop\<lparr>roles := []\<rparr>))
       = Some (0, pro_tool)
   \<and> status (purchases (fst (handleCheckoutSessionCompleted (at_time 5000) paid_session
                 (shop\<lparr>roles := []\<rparr>))) ! 0) = Completed
   \<and> userRoles (fst (handleCheckoutSessionCompleted (at_time 5000) paid_session
                 (shop\<lparr>roles := []\<rparr>))) = []
   \<and> status (purchases endless_shop ! 0) = Pending
   \<and> findProduct (productSlug (purchases endless_shop ! 0)) (\<lambda>_. True) (products endless_shop)
       = Some (0, pro_tool)
   \<and> findOne (\<lambda>ro. Some (roleIdent ro) = roleId pro_tool) (roles endless_shop) = Some (0, vip)
   \<and> handleCheckoutSessionCompleted (at_time 5000) paid_session endless_shop
       = (endless_shop\<lparr>purchases := [mark_completed (at_time 5000) paid_session
                                         (purchases endless_shop ! 0)]\<rparr>,
          Some RangeError)
   \<and> status (purchases (fst (handleCheckoutSessionCompleted (at_time 5000) paid_session
                 endless_shop)) ! 0) = Completed
   \<and> userRoles (fst (handleCheckoutSessionCompleted (at_time 5000) paid_session endless_shop))
       = []"
  by (simp add: handler_defs shop_defs)

text \<open>
  Claim C2, amended. Let the session of a completion callback refer to a stored purchase
  that is \<open>Pending\<close>, let the product found by the purchase's slug (lower-cased and trimmed,
  as the query is cast) carry a non-zero \<^verbatim>\<open>roleId\<close>, and let a role with that id exist. Then
  handling the callback once sets the status to \<open>Completed\<close>. When the expiry is a
  JavaScript date (or there is none), this appends exactly one entitlement, for the buyer and
  that role; and handling the same callback a second time, when the expiry is again a date,
  appends a second entitlement for the same buyer and role, and the status stays
  \<open>Completed\<close>. When the expiry is out of the range of dates, the handler throws a
  \<^verbatim>\<open>RangeError\<close> and no entitlement is created.
\<close>

theorem completion_grants_once_per_callback:
  assumes "session_reference session = Inr ref"
    and "(case ref of None \<Rightarrow> None | Some s \<Rightarrow> parseInt s) = Some pid"
    and "pid \<noteq> 0"
    and "findOne (\<lambda>p. Some (purchaseId p) = Some pid) (purchases d) = Some (i, p)"
    and "status p = Pending"
    and "findProduct (productSlug p) (\<lambda>_. True) (products d) = Some (j, pr)"
    and "roleId pr = Some r" and "r \<noteq> 0"
    and "findOne (\<lambda>ro. Some (roleIdent ro) = Some r) (roles d) = Some (k, ro)"
    and "d1 = fst (handleCheckoutSessionCompleted e session d)"
    and "d2 = fst (handleCheckoutSessionCompleted e' session d1)"
  shows "status (purchases d ! i) = Pending \<and> status (purchases d1 ! i) = Completed
         \<and> ((\<forall>err. entitlement_expiry e p \<noteq> Inl err) \<longrightarrow>
              (\<exists>ur1. userRoles d1 = userRoles d @ [ur1]
                 \<and> ur_userUid ur1 = userId p \<and> ur_roleId ur1 = r
                 \<and> ((\<forall>err. entitlement_expiry e' p \<noteq> Inl err) \<longrightarrow>
                      (\<exists>ur2. userRoles d2 = userRoles d @ [ur1, ur2]
                         \<and> ur_userUid ur2 = userId p \<and> ur_roleId ur2 = r)
                      \<and> status (purchases d2 ! i) = Completed)))
         \<and> ((\<exists>err. entitlement_expiry e p = Inl err) \<longrightarrow>
              userRoles d1 = userRoles d
              \<and> snd (handleCheckoutSessionCompleted e session d) = Some RangeError)"
proof -
  from findOne_SomeD [OF assms(4)]
  have at_i: "i < length (purchases d)" "purchases d ! i = p" "purchaseId p = pid" by simp_all
  have pending: "status (purchases d ! i) = Pending" using at_i assms(5) by simp
  have thrown: "userRoles d1 = userRoles d
                \<and> snd (handleCheckoutSessionCompleted e session d) = Some RangeError
                \<and> status (purchases d1 ! i) = Completed"
    if "entitlement_expiry e p = Inl err" for err
    using handleCheckoutSessionCompleted_out_of_range [OF assms(1-4) assms(6-9) that]
      assms(10) at_i
    by simp
  have granted: "status (purchases d1 ! i) = Completed
         \<and> (\<exists>ur1. userRoles d1 = userRoles d @ [ur1]
                 \<and> ur_userUid ur1 = userId p \<and> ur_roleId ur1 = r
                 \<and> ((\<forall>err. entitlement_expiry e' p \<noteq> Inl err) \<longrightarrow>
                      (\<exists>ur2. userRoles d2 = userRoles d @ [ur1, ur2]
                         \<and> ur_userUid ur2 = userId p \<and> ur_roleId ur2 = r)
                      \<and> status (purchases d2 ! i) = Completed))"
    if x1: "entitlement_expiry e p = Inr x1" for x1
  proof -
    let ?p1 = "(mark_completed e session p)\<lparr>expiresAt := x1\<rparr>"
    let ?ur1 = "new_userRole (now e) (userId p) r (userId p) x1 (userRoles d)"
    from handleCheckoutSessionCompleted_grants [OF assms(1-4) assms(6-9) x1] assms(10)
    obtain ns where d1: "d1 = d\<lparr>purchases := (purchases d)[i := ?p1],
                                userRoles := userRoles d @ [?ur1], notifications := ns\<rparr>"
      by auto
    have u1: "userRoles d1 = userRoles d @ [?ur1]" using d1 by simp
    have c1: "status (purchases d1 ! i) = Completed" using d1 at_i by simp
    have second: "(\<exists>ur2. userRoles d2 = userRoles d @ [?ur1, ur2]
                         \<and> ur_userUid ur2 = userId p \<and> ur_roleId ur2 = r)
                  \<and> status (purchases d2 ! i) = Completed"
      if x2: "entitlement_expiry e' p = Inr x2" for x2
    proof -
      have "Some (purchaseId ?p1) = Some pid" using at_i by simp
      from findOne_update [OF assms(4), of ?p1, OF this] d1
      have f1: "findOne (\<lambda>p. Some (purchaseId p) = Some pid) (purchases d1) = Some (i, ?p1)"
        by simp
      from assms(6) d1
      have s1: "findProduct (productSlug ?p1) (\<lambda>_. True) (products d1) = Some (j, pr)"
        by simp
      from assms(9) d1
      have r1: "findOne (\<lambda>ro. Some (roleIdent ro) = Some r) (roles d1) = Some (k, ro)"
        by simp
      have "durationDays ?p1 = durationDays p" by simp
      from entitlement_expiry_cong [OF this, of e'] x2
      have x2': "entitlement_expiry e' ?p1 = Inr x2" by simp
      let ?p2 = "(mark_completed e' session ?p1)\<lparr>expiresAt := x2\<rparr>"
      let ?ur2 = "new_userRole (now e') (userId ?p1) r (userId ?p1) x2 (userRoles d1)"
      from handleCheckoutSessionCompleted_grants [OF assms(1-3) f1 s1 assms(7,8) r1 x2']
        assms(11)
      obtain ns' where d2: "d2 = d1\<lparr>purchases := (purchases d1)[i := ?p2],
                                    userRoles := userRoles d1 @ [?ur2], notifications := ns'\<rparr>"
        by auto
      have u2: "userRoles d2 = userRoles d @ [?ur1, ?ur2]" using d2 u1 by simp
      have c2: "status (purchases d2 ! i) = Completed" using d2 d1 at_i by simp
      have "ur_userUid ?ur2 = userId p \<and> ur_roleId ?ur2 = r" by simp
      with u2 c2 show ?thesis by blast
    qed
    have "(\<forall>err. entitlement_expiry e' p \<noteq> Inl err) \<longrightarrow>
            (\<exists>ur2. userRoles d2 = userRoles d @ [?ur1, ur2]
                         \<and> ur_userUid ur2 = userId p \<and> ur_roleId ur2 = r)
            \<and> status (purchases d2 ! i) = Completed"
    proof
      assume "\<forall>err. entitlement_expiry e' p \<noteq> Inl err"
      then obtain x2 where "entitlement_expiry e' p = Inr x2"
        by (cases "entitlement_expiry e' p") auto
      from second [OF this] show "(\<exists>ur2. userRoles d2 = userRoles d @ [?ur1, ur2]
                         \<and> ur_userUid ur2 = userId p \<and> ur_roleId ur2 = r)
            \<and> status (purchases d2 ! i) = Completed" .
    qed
    moreover have "ur_userUid ?ur1 = userId p \<and> ur_roleId ?ur1 = r" by simp
    ultimately have "\<exists>ur1. userRoles d1 = userRoles d @ [ur1]
                 \<and> ur_userUid ur1 = userId p \<and> ur_roleId ur1 = r
                 \<and> ((\<forall>err. entitlement_expiry e' p \<noteq> Inl err) \<longrightarrow>
                      (\<exists>ur2. userRoles d2 = userRoles d @ [ur1, ur2]
                         \<and> ur_userUid ur2 = userId p \<and> ur_roleId ur2 = r)
                      \<and> status (purchases d2 ! i) = Completed)"
      using u1 by (intro exI [of _ ?ur1]) simp
    with c1 show ?thesis by simp
  qed
  show ?thesis
  proof (cases "entitlement_expiry e p")
    case (Inl err)
    from thrown [OF Inl] pending Inl show ?thesis by simp
  next
    case (Inr x1)
    from granted [OF Inr] pending Inr show ?thesis by simp
  qed
qed

text \<open>
  C2 (amended) as a round trip: the checkout request stores the pending purchase, one delivery
  of the completion leaves one entitlement, a second delivery leaves two; and for the purchase
  of 100000001 days the delivery throws and leaves none.
\<close>

theorem completion_grants_once_per_callback_witness:
  "map status (purchases ordered_shop) = [Pending]
   \<and> map status (purchases
         (fst (handleCheckoutSessionCompleted (at_time 5000) paid_session ordered_shop)))
       = [Completed]
   \<and> length (userRoles
         (fst (handleCheckoutSessionCompleted (at_time 5000) paid_session ordered_shop))) = 1
   \<and> length (userRoles
         (fst (handleCheckoutSessionCompleted (at_time 6000) paid_session
                 (fst (handleCheckoutSessionCompleted (at_time 5000) paid_session
                         ordered_shop))))) = 2
   \<and> userRoles (fst (handleCheckoutSessionCompleted (at_time 5000) paid_session endless_shop))
       = []
   \<and> snd (handleCheckoutSessionCompleted (at_time 5000) paid_session endless_shop)
       = Some RangeError"
proof -
  let ?p = "pending_purchase\<lparr>licenseKey := Some (generateLicenseKey (\<lambda>i. i)),
                              stripeSessionId := Some ''cs_1''\<rparr>"
  let ?d1 = "fst (handleCheckoutSessionCompleted (at_time 5000) paid_session ordered_shop)"
  have found: "findOne (\<lambda>p. Some (purchaseId p) = Some 1) (purchases ordered_shop)
                 = Some (0, ?p)"
    by (simp add: ordered_shop_eq findOne_def shop_defs)
  have pending: "status ?p = Pending" by (simp add: shop_defs)
  have prd: "findProduct (productSlug ?p) (\<lambda>_. True) (products ordered_shop)
               = Some (0, pro_tool)"
    by (simp add: ordered_shop_eq findOne_def findProduct_def cast_pro_tool shop_defs)
  have role: "roleId pro_tool = Some 3" by (simp add: shop_defs)
  have ro: "findOne (\<lambda>ro. Some (roleIdent ro) = Some 3) (roles ordered_shop) = Some (0, vip)"
    by (simp add: ordered_shop_eq findOne_def shop_defs)
  have empty: "userRoles ordered_shop = []" by (simp add: ordered_shop_eq shop_defs)
  have one: "purchases ordered_shop = [?p]" by (simp add: ordered_shop_eq)
  have in_range: "\<forall>err. entitlement_expiry (at_time 5000) ?p \<noteq> Inl err"
    "\<forall>err. entitlement_expiry (at_time 6000) ?p \<noteq> Inl err"
    by (simp_all add: entitlement_expiry_def setDate_plus_def timeClip_def msPerDay_def
        shop_defs)
  have len1: "length (purchases ?d1) = 1"
    using handleCheckoutSessionCompleted_shape [of "at_time 5000" paid_session ordered_shop]
    by (auto simp: one)
  from completion_grants_once_per_callback
    [OF paid_reference paid_parse _ found pending prd role _ ro refl refl,
     of "at_time 5000" "at_time 6000"] in_range
  have r: "status (purchases ordered_shop ! 0) = Pending"
    "status (purchases ?d1 ! 0) = Completed"
    "length (userRoles ?d1) = 1"
    "length (userRoles (fst (handleCheckoutSessionCompleted (at_time 6000) paid_session ?d1)))
       = 2"
    by (auto simp: empty)
  let ?q = "pending_purchase\<lparr>durationDays := Some 100000001\<rparr>"
  have found': "findOne (\<lambda>p. Some (purchaseId p) = Some 1) (purchases endless_shop)
                  = Some (0, ?q)"
    by (simp add: findOne_def shop_defs)
  have pending': "status ?q = Pending" by (simp add: shop_defs)
  have prd': "findProduct (productSlug ?q) (\<lambda>_. True) (products endless_shop)
                = Some (0, pro_tool)"
    by (simp add: findOne_def findProduct_def cast_pro_tool shop_defs)
  have ro': "findOne (\<lambda>ro. Some (roleIdent ro) = Some 3) (roles endless_shop) = Some (0, vip)"
    by (simp add: findOne_def shop_defs)
  have empty': "userRoles endless_shop = []" by (simp add: shop_defs)
  have out_of_range: "\<exists>err. entitlement_expiry (at_time 5000) ?q = Inl err"
    by (simp add: entitlement_expiry_def setDate_plus_def timeClip_def msPerDay_def shop_defs)
  from completion_grants_once_per_callback
    [OF paid_reference paid_parse _ found' pending' prd' role _ ro' refl refl,
     of "at_time 5000" "at_time 6000"] out_of_range
  have r': "userRoles (fst (handleCheckoutSessionCompleted (at_time 5000) paid_session
                             endless_shop)) = []"
    "snd (handleCheckoutSessionCompleted (at_time 5000) paid_session endless_shop)
       = Some RangeError"
    by (simp_all add: empty')
  from r(1) one have 1: "map status (purchases ordered_shop) = [Pending]" by simp
  from r(2) len1 have 2: "map status (purchases ?d1) = [Completed]"
    by (cases "purchases ?d1") simp_all
  from 1 2 r(3,4) r' show ?thesis by (intro conjI)
qed

subsection \<open>C3: the responses of the webhook\<close>

text \<open>
  C3 as stated fails when the handler throws: the route catches the exception and answers
  500. A signed \<^verbatim>\<open>checkout.session.completed\<close> event whose session has neither
  \<^verbatim>\<open>client_reference_id\<close> nor \<^verbatim>\<open>metadata\<close> makes
  \<^verbatim>\<open>session.metadata.purchaseId\<close> throw; and a completion for a product with a very
  long title is answered 500 because the notice is rejected, after the purchase has been
  completed.
\<close>

theorem webhook_throws_counterexample:
  "constructEvent (delivering bare_event) (wh_body signed) (wh_signature signed)
       (webhookSecret (provider bare_event)) = Inr bare_event
   \<and> webhook (provider bare_event) (at_time 5000) signed shop
       = (shop, 500, JObj [(''error'', JStr ''Webhook handler failed'')])
   \<and> constructEvent (delivering completed_event) (wh_body signed) (wh_signature signed)
       (webhookSecret (provider completed_event)) = Inr completed_event
   \<and> snd (webhook (provider completed_event) (at_time 5000) signed wordy_shop)
       = (500, JObj [(''error'', JStr ''Webhook handler failed'')])
   \<and> map status (purchases (fst (webhook (provider completed_event) (at_time 5000) signed
                                     wordy_shop))) = [Completed]"
  by (simp add: run_defs wordy_shop_def shop_defs)

text \<open>
  Claim C3, amended. With the provider configured: when the signature check fails the
  response is 400 and the store is unchanged; when the signature is valid the response is
  200 \<^verbatim>\<open>{received: true}\<close> if the event handler returns and 500 if it throws. The handler
  returns, with the store unchanged, when the session's reference yields no purchase id or no
  stored purchase has that id, and when no purchase carries the payment id of a failure event.
\<close>

theorem webhook_responses:
  assumes "stripe cfg = Some client"
  shows "(constructEvent client (wh_body req) (wh_signature req) (webhookSecret cfg) = Inl msg
            \<longrightarrow> webhook cfg e req d = (d, 400, JStr (''Webhook Error: '' @ msg)))
       \<and> (constructEvent client (wh_body req) (wh_signature req) (webhookSecret cfg) = Inr ev
            \<longrightarrow> (snd (handle_event e ev d) = None
                   \<longrightarrow> snd (webhook cfg e req d) = (200, JObj [(''received'', JBool True)]))
               \<and> (snd (handle_event e ev d) \<noteq> None
                   \<longrightarrow> snd (webhook cfg e req d)
                         = (500, JObj [(''error'', JStr ''Webhook handler failed'')]))
               \<and> (ev_type ev = ''checkout.session.completed''
                   \<and> session_reference (ev_object ev) = Inr ref
                   \<and> \<not> truthy_num (case ref of None \<Rightarrow> None | Some s \<Rightarrow> parseInt s)
                   \<longrightarrow> webhook cfg e req d = (d, 200, JObj [(''received'', JBool True)]))
               \<and> (ev_type ev = ''checkout.session.completed''
                   \<and> session_reference (ev_object ev) = Inr ref
                   \<and> findOne (\<lambda>p. Some (purchaseId p)
                                      = (case ref of None \<Rightarrow> None | Some s \<Rightarrow> parseInt s))
                         (purchases d) = None
                   \<longrightarrow> webhook cfg e req d = (d, 200, JObj [(''received'', JBool True)]))
               \<and> (ev_type ev = ''payment_intent.payment_failed''
                   \<and> findOne (\<lambda>p. stripePaymentId p = Some (obj_id (ev_object ev)))
                         (purchases d) = None
                   \<longrightarrow> webhook cfg e req d = (d, 200, JObj [(''received'', JBool True)])))"
proof (intro conjI impI)
  assume "constructEvent client (wh_body req) (wh_signature req) (webhookSecret cfg) = Inl msg"
  with assms show "webhook cfg e req d = (d, 400, JStr (''Webhook Error: '' @ msg))"
    by (simp add: webhook_def)
next
  assume "constructEvent client (wh_body req) (wh_signature req) (webhookSecret cfg) = Inr ev"
    and "snd (handle_event e ev d) = None"
  with assms show "snd (webhook cfg e req d) = (200, JObj [(''received'', JBool True)])"
    by (cases "handle_event e ev d") (simp add: webhook_def)
next
  assume "constructEvent client (wh_body req) (wh_signature req) (webhookSecret cfg) = Inr ev"
    and "snd (handle_event e ev d) \<noteq> None"
  with assms show "snd (webhook cfg e req d)
                     = (500, JObj [(''error'', JStr ''Webhook handler failed'')])"
    by (cases "handle_event e ev d") (auto simp: webhook_def)
next
  assume ev: "constructEvent client (wh_body req) (wh_signature req) (webhookSecret cfg) = Inr ev"
    and "ev_type ev = ''checkout.session.completed''
         \<and> session_reference (ev_object ev) = Inr ref
         \<and> \<not> truthy_num (case ref of None \<Rightarrow> None | Some s \<Rightarrow> parseInt s)"
  then have "handle_event e ev d = (d, None)"
    by (simp add: handle_event_def handleCheckoutSessionCompleted_def Let_def)
  with assms ev show "webhook cfg e req d = (d, 200, JObj [(''received'', JBool True)])"
    by (simp add: webhook_def)
next
  assume ev: "constructEvent client (wh_body req) (wh_signature req) (webhookSecret cfg) = Inr ev"
    and "ev_type ev = ''checkout.session.completed''
         \<and> session_reference (ev_object ev) = Inr ref
         \<and> findOne (\<lambda>p. Some (purchaseId p)
                            = (case ref of None \<Rightarrow> None | Some s \<Rightarrow> parseInt s))
               (purchases d) = None"
  then have "handle_event e ev d = (d, None)"
    by (simp add: handle_event_def handleCheckoutSessionCompleted_def Let_def)
  with assms ev show "webhook cfg e req d = (d, 200, JObj [(''received'', JBool True)])"
    by (simp add: webhook_def)
next
  assume ev: "constructEvent client (wh_body req) (wh_signature req) (webhookSecret cfg) = Inr ev"
    and "ev_type ev = ''payment_intent.payment_failed''
         \<and> findOne (\<lambda>p. stripePaymentId p = Some (obj_id (ev_object ev))) (purchases d) = None"
  then have "handle_event e ev d = (d, None)"
    by (simp add: handle_event_def handlePaymentFailed_def)
  with assms ev show "webhook cfg e req d = (d, 200, JObj [(''received'', JBool True)])"
    by (simp add: webhook_def)
qed

text \<open>C3 (amended) at the shop: a forged delivery, a handled one, a throwing one and two
  that find no purchase.\<close>

theorem webhook_responses_witness:
  "webhook (provider completed_event) (at_time 5000) forged shop
       = (shop, 400, JStr ''Webhook Error: signature mismatch'')
   \<and> snd (webhook (provider completed_event) (at_time 5000) signed shop)
       = (200, JObj [(''received'', JBool True)])
   \<and> snd (webhook (provider bare_event) (at_time 5000) signed shop)
       = (500, JObj [(''error'', JStr ''Webhook handler failed'')])
   \<and> webhook (provider completed_event) (at_time 5000) signed (shop\<lparr>purchases := []\<rparr>)
       = (shop\<lparr>purchases := []\<rparr>, 200, JObj [(''received'', JBool True)])
   \<and> webhook (provider failed_event) (at_time 5000) signed shop
       = (shop, 200, JObj [(''received'', JBool True)])"
proof -
  have cfg: "stripe (provider ev) = Some (delivering ev)" for ev
    by (simp add: provider_def)
  have bad: "constructEvent (delivering ev) (wh_body forged) (wh_signature forged)
               (webhookSecret (provider ev)) = Inl ''signature mismatch''" for ev
    by (simp add: delivering_def forged_def)
  have good: "constructEvent (delivering ev) (wh_body signed) (wh_signature signed)
               (webhookSecret (provider ev)) = Inr ev" for ev
    by (simp add: delivering_def signed_def)
  have ok: "snd (handle_event (at_time 5000) completed_event shop) = None"
    by (simp add: run_defs shop_defs)
  have thrown: "snd (handle_event (at_time 5000) bare_event shop) \<noteq> None"
    by (simp add: run_defs shop_defs)
  have missing: "ev_type completed_event = ''checkout.session.completed''
      \<and> session_reference (ev_object completed_event) = Inr (Some ''1'')
      \<and> findOne (\<lambda>p. Some (purchaseId p)
                         = (case Some ''1'' of None \<Rightarrow> None | Some s \<Rightarrow> parseInt s))
            (purchases (shop\<lparr>purchases := []\<rparr>)) = None"
    by (simp add: run_defs shop_defs)
  have unknown: "ev_type failed_event = ''payment_intent.payment_failed''
      \<and> findOne (\<lambda>p. stripePaymentId p = Some (obj_id (ev_object failed_event)))
            (purchases shop) = None"
    by (simp add: run_defs shop_defs)
  from webhook_responses [OF cfg [of completed_event], where req = forged
      and msg = "''signature mismatch''" and e = "at_time 5000" and d = shop]
    bad [of completed_event]
  have 1: "webhook (provider completed_event) (at_time 5000) forged shop
       = (shop, 400, JStr ''Webhook Error: signature mismatch'')" by simp
  from webhook_responses [OF cfg [of completed_event], where req = signed
      and ev = completed_event and e = "at_time 5000" and d = shop]
    good [of completed_event] ok
  have 2: "snd (webhook (provider completed_event) (at_time 5000) signed shop)
       = (200, JObj [(''received'', JBool True)])" by simp
  from webhook_responses [OF cfg [of bare_event], where req = signed
      and ev = bare_event and e = "at_time 5000" and d = shop]
    good [of bare_event] thrown
  have 3: "snd (webhook (provider bare_event) (at_time 5000) signed shop)
       = (500, JObj [(''error'', JStr ''Webhook handler failed'')])" by simp
  from webhook_responses [OF cfg [of completed_event], where req = signed
      and ev = completed_event and e = "at_time 5000" and d = "shop\<lparr>purchases := []\<rparr>"
      and ref = "Some ''1''"]
    good [of completed_event] missing
  have 4: "webhook (provider completed_event) (at_time 5000) signed (shop\<lparr>purchases := []\<rparr>)
       = (shop\<lparr>purchases := []\<rparr>, 200, JObj [(''received'', JBool True)])" by simp
  from webhook_responses [OF cfg [of failed_event], where req = signed
      and ev = failed_event and e = "at_time 5000" and d = shop]
    good [of failed_event] unknown
  have 5: "webhook (provider failed_event) (at_time 5000) signed shop
       = (shop, 200, JObj [(''received'', JBool True)])" by simp
  from 1 2 3 4 5 show ?thesis by (intro conjI)
qed

subsection \<open>C4: the download gate\<close>

text \<open>
  C4 as stated fails at the instant of expiry: \<^verbatim>\<open>canDownload\<close> refuses only when
  \<^verbatim>\<open>new Date() > new Date(this.expiresAt)\<close>, so a purchase whose expiry is the current
  instant may still be downloaded, although its expiry is not strictly in the future.
\<close>

theorem canDownload_boundary_counterexample:
  "canDownload 5000 boundary_purchase \<and> \<not> spec_isDownloadAllowed 5000 boundary_purchase"
  by (simp add: canDownload_def expired_def spec_isDownloadAllowed_def shop_defs)

text \<open>
  Claim C4, amended. \<^verbatim>\<open>canDownload\<close> returns true if and only if the status is
  \<open>Completed\<close>, \<open>downloadCount < maxDownloads\<close>, and \<open>expiresAt\<close> is null or not earlier than
  the current instant; in particular it returns false for every status other than
  \<open>Completed\<close>, whatever the counters.
\<close>

theorem canDownload_iff:
  "(canDownload t p \<longleftrightarrow>
      status p = Completed \<and> downloadCount p < maxDownloads p
      \<and> (case expiresAt p of None \<Rightarrow> True | Some x \<Rightarrow> t \<le> x))
   \<and> (status p \<noteq> Completed \<longrightarrow> \<not> canDownload t p)"
  by (auto simp: canDownload_def expired_def split: option.splits)

text \<open>C4 (amended) at the instant of expiry, and for the pending purchase.\<close>

theorem canDownload_iff_witness:
  "canDownload 5000 boundary_purchase
   \<and> status pending_purchase \<noteq> Completed \<and> \<not> canDownload 5000 pending_purchase"
  using canDownload_iff [of 5000 boundary_purchase] canDownload_iff [of 5000 pending_purchase]
  by (simp add: shop_defs)

subsection \<open>C5: the price snapshot of the checkout\<close>




subsection \<open>C6: the expiry of the entitlement\<close>




subsection \<open>C7: the status along a run\<close>

text \<open>
  C7 as stated fails, since every writer assigns its status without looking at the current
  one: after the completion, a failure event for the recorded payment takes the purchase
  from \<open>Completed\<close> to \<open>Failed\<close>, and a second delivery of the completion takes it back to
  \<open>Completed\<close>. A cycle is monotonic in no order.
\<close>

theorem status_cycle_counterexample:
  "map status (purchases after_payment) = [Completed]
   \<and> map status (purchases after_failure) = [Failed]
   \<and> map status (purchases after_replay) = [Completed]
   \<and> \<not> spec_transition_allowed Completed Failed
   \<and> \<not> spec_transition_allowed Failed Completed"
  by (simp add: after_replay_def after_failure_def after_payment_def run_defs shop_defs
      spec_transition_allowed_def)

text \<open>
  Claim C7, amended. Every method of the purchase document and every request leaves the
  status of a stored purchase as it is or sets it to \<open>Completed\<close>, \<open>Failed\<close> or \<open>Refunded\<close>
  (requests: \<open>Completed\<close> or \<open>Failed\<close>), whatever it was before; hence along every run of
  method calls and every run of requests a purchase that is not \<open>Pending\<close> never becomes
  \<open>Pending\<close> again. No order among the other statuses is kept.
\<close>

theorem status_never_back_to_pending:
  "(\<forall>txn reason t p. status (completePurchase txn t p) = Completed
       \<and> status (failPurchase reason p) = Failed
       \<and> status (refundPurchase reason t p) = Refunded)
   \<and> (\<forall>m p p'. call_method m p = Inr p' \<longrightarrow>
       status p' = status p \<or> status p' = Completed \<or> status p' = Failed
       \<or> status p' = Refunded)
   \<and> (\<forall>ms p. status p \<noteq> Pending \<longrightarrow> status (call_methods ms p) \<noteq> Pending)
   \<and> (\<forall>cfg e r (d::db) i. i < length (purchases d) \<longrightarrow>
         status (purchases (fst (serve cfg e r d)) ! i) = status (purchases d ! i)
         \<or> status (purchases (fst (serve cfg e r d)) ! i) = Completed
         \<or> status (purchases (fst (serve cfg e r d)) ! i) = Failed)
   \<and> (\<forall>cfg rs (d::db) i. i < length (purchases d) \<and> status (purchases d ! i) \<noteq> Pending \<longrightarrow>
         i < length (purchases (serve_all cfg rs d))
         \<and> status (purchases (serve_all cfg rs d) ! i) \<noteq> Pending)"
proof (intro conjI allI impI)
  fix txn reason t and p :: purchase
  show "status (completePurchase txn t p) = Completed"
    by (simp add: completePurchase_def Let_def)
  show "status (failPurchase reason p) = Failed"
    by (simp add: failPurchase_def Let_def)
  show "status (refundPurchase reason t p) = Refunded"
    by (simp add: refundPurchase_def)
next
  fix m and p p' :: purchase
  assume "call_method m p = Inr p'"
  then show "status p' = status p \<or> status p' = Completed \<or> status p' = Failed
       \<or> status p' = Refunded"
    by (rule call_method_status)
next
  fix ms and p :: purchase
  assume "status p \<noteq> Pending"
  then show "status (call_methods ms p) \<noteq> Pending" by (rule call_methods_not_pending)
next
  fix cfg :: config and e :: env and r and d :: db and i
  assume "i < length (purchases d)"
  from serve_existing [OF this, of cfg e r]
  show "status (purchases (fst (serve cfg e r d)) ! i) = status (purchases d ! i)
         \<or> status (purchases (fst (serve cfg e r d)) ! i) = Completed
         \<or> status (purchases (fst (serve cfg e r d)) ! i) = Failed"
    by auto
next
  fix cfg :: config and rs and d :: db and i
  assume a: "i < length (purchases d) \<and> status (purchases d ! i) \<noteq> Pending"
  with serve_all_not_pending [of i d cfg rs]
  show "i < length (purchases (serve_all cfg rs d))" by simp
  from a serve_all_not_pending [of i d cfg rs]
  show "status (purchases (serve_all cfg rs d) ! i) \<noteq> Pending" by simp
qed

text \<open>C7 (amended) at the shop after the payment.\<close>

theorem status_never_back_to_pending_witness:
  "status (purchases after_payment ! 0) \<noteq> Pending
   \<and> status (purchases (serve_all (provider failed_event)
                 [(at_time 6000, StripeWebhook signed),
                  (at_time 7000, RedeemDownload redeem_request)] after_payment) ! 0) \<noteq> Pending
   \<and> status (call_methods [RefundPurchase (Some ''chargeback'') 8000,
                            CompletePurchase None 9000] completed_purchase) \<noteq> Pending
   \<and> status (purchases (fst (serve (provider failed_event) (at_time 6000)
                 (StripeWebhook signed) after_payment)) ! 0) \<in> {Completed, Failed}"
proof -
  have len: "0 < length (purchases after_payment)"
    using after_payment_status by (cases "purchases after_payment") simp_all
  have st: "status (purchases after_payment ! 0) = Completed"
    using after_payment_status by (cases "purchases after_payment") simp_all
  then have np: "status (purchases after_payment ! 0) \<noteq> Pending" by simp
  have cp: "status completed_purchase \<noteq> Pending" by (simp add: shop_defs)
  note t = status_never_back_to_pending
  from t [THEN conjunct2, THEN conjunct2, THEN conjunct2, THEN conjunct2, rule_format,
      of 0 after_payment]
    len np
  have 1: "status (purchases (serve_all (provider failed_event)
                 [(at_time 6000, StripeWebhook signed),
                  (at_time 7000, RedeemDownload redeem_request)] after_payment) ! 0) \<noteq> Pending"
    by blast
  from t [THEN conjunct2, THEN conjunct2, THEN conjunct1, rule_format, OF cp]
  have 2: "status (call_methods [RefundPurchase (Some ''chargeback'') 8000,
                            CompletePurchase None 9000] completed_purchase) \<noteq> Pending" .
  from t [THEN conjunct2, THEN conjunct2, THEN conjunct2, THEN conjunct1, rule_format, OF len,
      of "provider failed_event" "at_time 6000" "StripeWebhook signed"] st
  have 3: "status (purchases (fst (serve (provider failed_event) (at_time 6000)
                 (StripeWebhook signed) after_payment)) ! 0) \<in> {Completed, Failed}"
    by auto
  from np 1 2 3 show ?thesis by (intro conjI)
qed

subsection \<open>C8: the life of a purchase document\<close>

text \<open>
  C8 as stated fails for \<^verbatim>\<open>POST /api/purchases\<close>: the request that creates the purchase
  completes it at once, so the document it leaves in the store is \<open>Completed\<close> without any
  gateway callback or refund.
\<close>

theorem demo_purchase_counterexample:
  "purchases catalogue = []
   \<and> map status (purchases (fst (serve (provider completed_event) (at_time 1000)
                      (CreatePurchase listing_request) catalogue))) = [Completed]"
  by (simp add: post_purchase_def save_new_purchase_def validate_purchase_def isPurchasable_def
      completePurchase_def findOne_def nextId_def Let_def shop_defs)

text \<open>
  Claim C8, amended. No request removes or renumbers a stored purchase, along any run. A
  request creates at most one purchase: the checkout request leaves it \<open>Pending\<close>, and
  \<^verbatim>\<open>POST /api/purchases\<close> leaves it \<open>Completed\<close>. The status of a purchase that is already
  stored is changed only by the gateway callback, to \<open>Completed\<close> or \<open>Failed\<close>. (The refund
  method sets \<open>Refunded\<close>; no route calls it.)
\<close>

theorem purchase_lifecycle:
  "length (purchases d) \<le> length (purchases (fst (serve cfg e r d)))
   \<and> (\<forall>i < length (purchases d).
         purchaseId (purchases (fst (serve cfg e r d)) ! i) = purchaseId (purchases d ! i)
         \<and> (status (purchases (fst (serve cfg e r d)) ! i) = status (purchases d ! i)
             \<or> (status (purchases (fst (serve cfg e r d)) ! i) = Completed
                 \<or> status (purchases (fst (serve cfg e r d)) ! i) = Failed)
               \<and> (\<exists>q. r = StripeWebhook q)))
   \<and> (\<forall>i. length (purchases d) \<le> i \<and> i < length (purchases (fst (serve cfg e r d))) \<longrightarrow>
         status (purchases (fst (serve cfg e r d)) ! i) = Pending
           \<and> (\<exists>q. r = CreateCheckoutSession q)
         \<or> status (purchases (fst (serve cfg e r d)) ! i) = Completed
           \<and> (\<exists>q. r = CreatePurchase q))
   \<and> (\<forall>rs. \<forall>i < length (purchases d).
         i < length (purchases (serve_all cfg rs d))
         \<and> purchaseId (purchases (serve_all cfg rs d) ! i) = purchaseId (purchases d ! i))
   \<and> (\<forall>reason t p. status (refundPurchase reason t p) = Refunded)"
proof (intro conjI allI impI)
  fix reason t and p :: purchase
  show "status (refundPurchase reason t p) = Refunded"
    by (simp add: refundPurchase_def)
next
  show "length (purchases d) \<le> length (purchases (fst (serve cfg e r d)))"
    by (rule serve_length)
next
  fix i
  assume "i < length (purchases d)"
  from serve_existing [OF this, of cfg e r]
  show "purchaseId (purchases (fst (serve cfg e r d)) ! i) = purchaseId (purchases d ! i)"
    and "status (purchases (fst (serve cfg e r d)) ! i) = status (purchases d ! i)
             \<or> (status (purchases (fst (serve cfg e r d)) ! i) = Completed
                 \<or> status (purchases (fst (serve cfg e r d)) ! i) = Failed)
               \<and> (\<exists>q. r = StripeWebhook q)"
    by simp_all
next
  fix i
  assume "length (purchases d) \<le> i \<and> i < length (purchases (fst (serve cfg e r d)))"
  then show "status (purchases (fst (serve cfg e r d)) ! i) = Pending
           \<and> (\<exists>q. r = CreateCheckoutSession q)
         \<or> status (purchases (fst (serve cfg e r d)) ! i) = Completed
           \<and> (\<exists>q. r = CreatePurchase q)"
    using serve_created [of d i cfg e r] by simp
next
  fix rs i
  assume "i < length (purchases d)"
  from serve_all_keeps [OF this, of cfg rs]
  show "i < length (purchases (serve_all cfg rs d))"
    and "purchaseId (purchases (serve_all cfg rs d) ! i) = purchaseId (purchases d ! i)"
    by simp_all
qed

text \<open>C8 (amended) at the shop and at the catalogue.\<close>

theorem purchase_lifecycle_witness:
  "length (purchases shop) \<le> length (purchases after_payment)
   \<and> purchaseId (purchases after_payment ! 0) = purchaseId (purchases shop ! 0)
   \<and> status (purchases after_payment ! 0) = Completed
   \<and> status (purchases (fst (serve (provider completed_event) (at_time 1000)
                 (CreateCheckoutSession pro_request) shop)) ! 1) = Pending
   \<and> status (purchases (fst (serve (provider completed_event) (at_time 1000)
                 (CreatePurchase listing_request) catalogue)) ! 0) = Completed"
proof -
  have ap: "after_payment
              = fst (serve (provider completed_event) (at_time 5000) (StripeWebhook signed) shop)"
    by (simp add: after_payment_def)
  have len: "0 < length (purchases shop)" by (simp add: shop_defs)
  have st: "status (purchases after_payment ! 0) = Completed"
    using after_payment_status by (cases "purchases after_payment") simp_all
  have new1: "length (purchases shop) \<le> 1
      \<and> 1 < length (purchases (fst (serve (provider completed_event) (at_time 1000)
                 (CreateCheckoutSession pro_request) shop)))"
    by (simp add: create_checkout_session_def save_new_purchase_def validate_purchase_def
        currency_or_usd_def findOne_def findProduct_def cast_pro_tool nextId_def Let_def
        shop_defs)
  have new0: "length (purchases catalogue) \<le> 0
      \<and> 0 < length (purchases (fst (serve (provider completed_event) (at_time 1000)
                 (CreatePurchase listing_request) catalogue)))"
    by (simp add: post_purchase_def save_new_purchase_def validate_purchase_def
        isPurchasable_def completePurchase_def findOne_def nextId_def Let_def shop_defs)
  note t = purchase_lifecycle
  from t [THEN conjunct1, of shop "provider completed_event" "at_time 5000" "StripeWebhook signed"]
  have 1: "length (purchases shop) \<le> length (purchases after_payment)" by (simp add: ap)
  from t [THEN conjunct2, THEN conjunct1, rule_format, OF len,
      of "provider completed_event" "at_time 5000" "StripeWebhook signed"]
  have 2: "purchaseId (purchases after_payment ! 0) = purchaseId (purchases shop ! 0)"
    by (simp add: ap)
  from t [THEN conjunct2, THEN conjunct2, THEN conjunct1, rule_format, OF new1]
  have 3: "status (purchases (fst (serve (provider completed_event) (at_time 1000)
                 (CreateCheckoutSession pro_request) shop)) ! 1) = Pending" by simp
  from t [THEN conjunct2, THEN conjunct2, THEN conjunct1, rule_format, OF new0]
  have 4: "status (purchases (fst (serve (provider completed_event) (at_time 1000)
                 (CreatePurchase listing_request) catalogue)) ! 0) = Completed" by simp
  from 1 2 st 3 4 show ?thesis by (intro conjI)
qed

subsection \<open>C9: the message of a denied download\<close>



subsection \<open>C10: the serialisation hides the payment data\<close>

text \<open>
  Claim C10. \<^verbatim>\<open>toJSON\<close> of a purchase does not depend on \<open>paymentData\<close>: two purchases
  that differ only in that field serialise to the same object, and the object has no key
  \<^verbatim>\<open>paymentData\<close>.
\<close>

theorem toJSON_hides_paymentData:
  "toJSON oid (p\<lparr>paymentData := x\<rparr>) = toJSON oid p
   \<and> ''paymentData'' \<notin> fst ` set (toJSON oid p)"
  by (simp add: toJSON_def toObject_def delete_key_def)

end
